theory Spec2Isabelle
  imports Main
begin

section \<open>Python values: errors, return values, dictionaries, lists\<close>

text \<open>
  The exceptions that \<^verbatim>\<open>yellowbrick/classifier.py\<close> can raise itself
  (\<^verbatim>\<open>YellowbrickTypeError\<close> in the constructor) or through the Python operations it
  performs on its attributes: iterating or measuring \<^verbatim>\<open>None\<close> and indexing a tuple with
  a string (\<^verbatim>\<open>TypeError\<close>), a missing dictionary key (\<^verbatim>\<open>KeyError\<close>), a list index
  out of range (\<^verbatim>\<open>IndexError\<close>), \<^verbatim>\<open>max\<close> of an empty sequence (\<^verbatim>\<open>ValueError\<close>)
  and reading an attribute that was never assigned (\<^verbatim>\<open>AttributeError\<close>). The library
  functions the module calls may fail with any of them; the plotting library also raises
  \<^verbatim>\<open>RuntimeError\<close>, when a colorbar is asked for and no image has been drawn.
\<close>

datatype error =
    YellowbrickTypeError
  | TypeError
  | KeyError
  | IndexError
  | ValueError
  | AttributeError
  | RuntimeError

text \<open>
  What a method returns: the instance itself (\<^verbatim>\<open>return self\<close>), \<^verbatim>\<open>None\<close> (a bare
  \<^verbatim>\<open>return\<close>), or the axes object held in \<^verbatim>\<open>self.ax\<close>.
\<close>

datatype 'ax pyret = RetSelf | RetNone | RetAx 'ax

text \<open>
  A Python dictionary, as the list of its items in insertion order with pairwise distinct
  keys. Assigning to a key that is present replaces its value in place; a new key goes to
  the end. \<^verbatim>\<open>dict(pairs)\<close> inserts the pairs from left to right, so of two pairs with the
  same key the later one wins.
\<close>

type_synonym ('k, 'v) dict = "('k \<times> 'v) list"

fun dict_set :: "'k \<Rightarrow> 'v \<Rightarrow> ('k, 'v) dict \<Rightarrow> ('k, 'v) dict" where
  "dict_set k v [] = [(k, v)]"
| "dict_set k v ((k', v') # d) =
     (if k = k' then (k, v) # d else (k', v') # dict_set k v d)"

definition dict :: "('k \<times> 'v) list \<Rightarrow> ('k, 'v) dict" where
  "dict ps = foldl (\<lambda>d (k, v). dict_set k v d) [] ps"

definition getitem :: "('k, 'v) dict \<Rightarrow> 'k \<Rightarrow> error + 'v" where
  "getitem d k = (case map_of d k of None \<Rightarrow> Inl KeyError | Some v \<Rightarrow> Inr v)"

definition dict_keys :: "('k, 'v) dict \<Rightarrow> 'k list" where
  "dict_keys d = map fst d"

definition dict_values :: "('k, 'v) dict \<Rightarrow> 'v list" where
  "dict_values d = map snd d"

text \<open>\<^verbatim>\<open>xs[i]\<close> for an index that is not negative.\<close>

definition list_getitem :: "'a list \<Rightarrow> nat \<Rightarrow> error + 'a" where
  "list_getitem xs i = (if i < length xs then Inr (xs ! i) else Inl IndexError)"

text \<open>\<^verbatim>\<open>max(xs)\<close> and \<^verbatim>\<open>min(xs)\<close>: a \<^verbatim>\<open>ValueError\<close> on an empty sequence.\<close>

definition py_max :: "'v::linorder list \<Rightarrow> error + 'v" where
  "py_max xs = (case xs of [] \<Rightarrow> Inl ValueError | x # r \<Rightarrow> Inr (fold max r x))"

definition py_min :: "'v::linorder list \<Rightarrow> error + 'v" where
  "py_min xs = (case xs of [] \<Rightarrow> Inl ValueError | x # r \<Rightarrow> Inr (fold min r x))"

text \<open>\<^verbatim>\<open>np.arange(n)\<close>.\<close>

definition arange :: "nat \<Rightarrow> nat list" where
  "arange n = [0..<n]"

text \<open>
  The tuple of four arrays that \<^verbatim>\<open>precision_recall_fscore_support\<close> returns, as the
  sequence of its components: \<^verbatim>\<open>t[0:3]\<close> is \<open>take 3\<close> of it and \<^verbatim>\<open>t[-1]\<close> its last
  element.
\<close>

type_synonym 'v prfs = "'v list \<times> 'v list \<times> 'v list \<times> 'v list"

fun components :: "'v prfs \<Rightarrow> 'v list list" where
  "components (p, r, f, s) = [p, r, f, s]"


section \<open>The plotting library's state\<close>

text \<open>
  \<^verbatim>\<open>matplotlib.pyplot\<close> is global state outside the instance: the current axes, which
  \<^verbatim>\<open>plt.gca()\<close> returns, and the drawing calls made so far, in order.
\<close>

record ('call, 'ax) pyplot =
  gca :: 'ax
  calls :: "'call list"

definition plt :: "'call \<Rightarrow> ('call, 'ax) pyplot \<Rightarrow> ('call, 'ax) pyplot" where
  "plt c w = w\<lparr>calls := calls w @ [c]\<rparr>"

text \<open>
  \<^verbatim>\<open>plt.xticks(marks, labels)\<close> and \<^verbatim>\<open>plt.yticks(marks, labels)\<close> raise \<^verbatim>\<open>ValueError\<close>
  when there are not as many labels as marks. \<open>c\<close> is the call to record when they are
  accepted; a call that raises is not recorded.
\<close>

definition ticks ::
  "'call \<Rightarrow> nat list \<Rightarrow> 'l list \<Rightarrow> ('call, 'ax) pyplot \<Rightarrow> error + ('call, 'ax) pyplot" where
  "ticks c marks labels w =
     (if length marks = length labels then Inr (plt c w) else Inl ValueError)"


section \<open>The base classes\<close>

text \<open>
  The attributes of \<^verbatim>\<open>ScoreVisualizer\<close> and \<^verbatim>\<open>Visualizer\<close>, which every visualizer of
  the module inherits.
\<close>

record ('est, 'ax) score_visualizer =
  ax :: "'ax option"
  estimator :: 'est
  name :: string

text \<open>
  Modelled from the spec: \<^verbatim>\<open>ScoreVisualizer.__init__\<close> of \<^verbatim>\<open>yellowbrick/base.py\<close>, which
  is not part of the module. The constructor performs a single validation, the one of
  \<^verbatim>\<open>ClassificationScoreVisualizer.__init__\<close>, so the base constructor only stores what the
  module's comments say was hoisted into it: the axes passed as \<^verbatim>\<open>ax\<close>, the model as
  \<^verbatim>\<open>self.estimator\<close> and \<^verbatim>\<open>get_model_name(self.estimator)\<close> as \<^verbatim>\<open>self.name\<close>.
\<close>

definition ScoreVisualizer_init ::
  "('est \<Rightarrow> string) \<Rightarrow> 'est \<Rightarrow> 'ax option \<Rightarrow> ('est, 'ax) score_visualizer" where
  "ScoreVisualizer_init get_model_name model ax0 =
     \<lparr>ax = ax0, estimator = model, name = get_model_name model\<rparr>"

text \<open>
  \<^verbatim>\<open>ClassificationScoreVisualizer.__init__\<close>; \<^verbatim>\<open>isclassifier\<close> comes from
  \<^verbatim>\<open>yellowbrick/utils.py\<close> and is a parameter.
\<close>

definition ClassificationScoreVisualizer_init ::
  "('est \<Rightarrow> bool) \<Rightarrow> ('est \<Rightarrow> string) \<Rightarrow> 'est \<Rightarrow> 'ax option
     \<Rightarrow> error + ('est, 'ax) score_visualizer" where
  "ClassificationScoreVisualizer_init isclassifier get_model_name model ax0 =
     (if \<not> isclassifier model then Inl YellowbrickTypeError
      else Inr (ScoreVisualizer_init get_model_name model ax0))"

text \<open>\<^verbatim>\<open>return self.ax\<close>.\<close>

definition return_ax :: "('est, 'ax, 'z) score_visualizer_scheme \<Rightarrow> 'ax pyret" where
  "return_ax st = (case ax st of None \<Rightarrow> RetNone | Some a \<Rightarrow> RetAx a)"

text \<open>\<^verbatim>\<open>if self.ax is None: self.ax = plt.gca()\<close>.\<close>

definition ensure_ax ::
  "('est, 'ax, 'z) score_visualizer_scheme \<Rightarrow> ('call, 'ax) pyplot
     \<Rightarrow> ('est, 'ax, 'z) score_visualizer_scheme" where
  "ensure_ax st w = (case ax st of None \<Rightarrow> st\<lparr>ax := Some (gca w)\<rparr> | Some _ \<Rightarrow> st)"

text \<open>
  \<^verbatim>\<open>super().fit(X, y, **kwargs)\<close>: the base class's \<^verbatim>\<open>fit\<close> is not part of the module
  either. It is taken as the fitting of the wrapped estimator, \<open>est_fit\<close>, a parameter
  that may fail; it knows the attributes of the base class only.
\<close>

definition ScoreVisualizer_fit ::
  "('x \<Rightarrow> 'yv \<Rightarrow> 'est \<Rightarrow> error + 'est) \<Rightarrow> 'x \<Rightarrow> 'yv
     \<Rightarrow> ('est, 'ax, 'z) score_visualizer_scheme
     \<Rightarrow> error + ('est, 'ax, 'z) score_visualizer_scheme" where
  "ScoreVisualizer_fit est_fit X y st =
     (case est_fit X y (estimator st) of
        Inl e \<Rightarrow> Inl e
      | Inr est' \<Rightarrow> Inr (st\<lparr>estimator := est'\<rparr>))"


section \<open>ClassificationReport\<close>

text \<open>
  The instance attributes of a \<^verbatim>\<open>ClassificationReport\<close>. \<open>cr_classes\<close> is the attribute
  \<^verbatim>\<open>classes_\<close> and \<open>cr_scores\<close> the attribute \<^verbatim>\<open>scores\<close> (\<^verbatim>\<open>ClassBalance\<close> has attributes
  of the same names). \<^verbatim>\<open>scores\<close> and \<^verbatim>\<open>matrix\<close> do not exist before \<^verbatim>\<open>score\<close> and
  \<^verbatim>\<open>draw\<close> assign them: \<open>None\<close> is the missing attribute. \<^verbatim>\<open>score\<close> first stores the
  tuple of four arrays in \<^verbatim>\<open>scores\<close> and then the dictionary of per-class dictionaries.
\<close>

datatype ('c, 'v) report_scores =
    Raw "'v prfs"
  | PerClass "(string, ('c, 'v) dict) dict"

record ('est, 'ax, 'c, 'v, 'cm) classification_report = "('est, 'ax) score_visualizer" +
  cmap :: 'cm
  cr_classes :: "'c list option"
  cr_scores :: "('c, 'v) report_scores option"
  matrix :: "'v list list option"

text \<open>
  The calls a \<^verbatim>\<open>ClassificationReport\<close> makes on the plotting library:
  \<^verbatim>\<open>self.ax.text(column, row, value, va='center', ha='center')\<close>,
  \<^verbatim>\<open>plt.imshow(matrix, interpolation='nearest', cmap=cmap, vmin=0, vmax=1)\<close>,
  \<^verbatim>\<open>plt.title(s)\<close>, \<^verbatim>\<open>plt.colorbar()\<close>, \<^verbatim>\<open>plt.xticks(marks, labels, rotation=45)\<close>,
  \<^verbatim>\<open>plt.yticks(marks, labels)\<close>, \<^verbatim>\<open>plt.ylabel(s)\<close>, \<^verbatim>\<open>plt.xlabel(s)\<close>, \<^verbatim>\<open>plt.show()\<close>.
\<close>

datatype ('c, 'v, 'cm, 'ax) report_call =
    AxText 'ax nat nat 'v
  | Imshow "'v list list" 'cm
  | Title string
  | Colorbar
  | Xticks "nat list" "string list"
  | Yticks "nat list" "'c list"
  | Ylabel string
  | Xlabel string
  | Show

text \<open>
  \<^verbatim>\<open>plt.colorbar()\<close> takes its colours from the current image and raises
  \<^verbatim>\<open>RuntimeError\<close> when there is none. An image is there once \<^verbatim>\<open>plt.imshow\<close> has been
  called.
\<close>

fun is_imshow :: "('c, 'v, 'cm, 'ax) report_call \<Rightarrow> bool" where
  "is_imshow (Imshow m c) = True"
| "is_imshow _ = False"

definition has_image :: "(('c, 'v, 'cm, 'ax) report_call, 'ax) pyplot \<Rightarrow> bool" where
  "has_image w = list_ex is_imshow (calls w)"

definition colorbar ::
  "(('c, 'v, 'cm, 'ax) report_call, 'ax) pyplot
     \<Rightarrow> error + (('c, 'v, 'cm, 'ax) report_call, 'ax) pyplot" where
  "colorbar w = (if has_image w then Inr (plt Colorbar w) else Inl RuntimeError)"

text \<open>
  \<^verbatim>\<open>ClassificationReport.__init__\<close>. \<^verbatim>\<open>ddlheatmap\<close> comes from
  \<^verbatim>\<open>yellowbrick/style/palettes.py\<close> and is a parameter; \<open>kwargs\<close> are the keyword
  arguments, of which the constructor reads \<^verbatim>\<open>cmap\<close>.
\<close>

definition ClassificationReport_init ::
  "('est \<Rightarrow> bool) \<Rightarrow> ('est \<Rightarrow> string) \<Rightarrow> 'cm \<Rightarrow> 'est \<Rightarrow> 'ax option \<Rightarrow> 'c list option
     \<Rightarrow> (string \<rightharpoonup> 'cm) \<Rightarrow> error + ('est, 'ax, 'c, 'v, 'cm) classification_report" where
  "ClassificationReport_init isclassifier get_model_name ddlheatmap model ax0 classes kwargs =
     (case ClassificationScoreVisualizer_init isclassifier get_model_name model ax0 of
        Inl e \<Rightarrow> Inl e
      | Inr b \<Rightarrow>
          Inr \<lparr>ax = ax b, estimator = estimator b, name = name b,
               cmap = (case kwargs ''cmap'' of None \<Rightarrow> ddlheatmap | Some c \<Rightarrow> c),
               cr_classes = classes, cr_scores = None, matrix = None\<rparr>)"

text \<open>
  \<^verbatim>\<open>ClassificationReport.fit\<close>. \<open>est_classes\<close> reads \<^verbatim>\<open>estimator.classes_\<close>, an attribute
  that an estimator may lack.
\<close>

definition ClassificationReport_fit ::
  "('x \<Rightarrow> 'yv \<Rightarrow> 'est \<Rightarrow> error + 'est) \<Rightarrow> ('est \<Rightarrow> 'c list option) \<Rightarrow> 'x \<Rightarrow> 'yv
     \<Rightarrow> ('est, 'ax, 'c, 'v, 'cm) classification_report
     \<Rightarrow> (error + 'ax pyret) \<times> ('est, 'ax, 'c, 'v, 'cm) classification_report" where
  "ClassificationReport_fit est_fit est_classes X y st =
     (case ScoreVisualizer_fit est_fit X y st of
        Inl e \<Rightarrow> (Inl e, st)
      | Inr st1 \<Rightarrow>
          (case cr_classes st1 of
             None \<Rightarrow>
               (case est_classes (estimator st1) of
                  None \<Rightarrow> (Inl AttributeError, st1)
                | Some cs \<Rightarrow> (Inr RetSelf, st1\<lparr>cr_classes := Some cs\<rparr>))
           | Some _ \<Rightarrow> (Inr RetSelf, st1)))"

text \<open>
  The body of the first loop of \<^verbatim>\<open>draw\<close>: the row
  \<^verbatim>\<open>[self.scores['precision'][cls], self.scores['recall'][cls], self.scores['f1'][cls]]\<close>.
\<close>

definition score_of ::
  "('c, 'v) report_scores option \<Rightarrow> string \<Rightarrow> 'c \<Rightarrow> error + 'v" where
  "score_of sc key cls =
     (case sc of
        None \<Rightarrow> Inl AttributeError
      | Some (Raw t) \<Rightarrow> Inl TypeError
      | Some (PerClass d) \<Rightarrow>
          (case getitem d key of Inl e \<Rightarrow> Inl e | Inr per_class \<Rightarrow> getitem per_class cls))"

definition matrix_row :: "('c, 'v) report_scores option \<Rightarrow> 'c \<Rightarrow> error + 'v list" where
  "matrix_row sc cls =
     (case score_of sc ''precision'' cls of
        Inl e \<Rightarrow> Inl e
      | Inr p \<Rightarrow>
          (case score_of sc ''recall'' cls of
             Inl e \<Rightarrow> Inl e
           | Inr r \<Rightarrow>
               (case score_of sc ''f1'' cls of
                  Inl e \<Rightarrow> Inl e
                | Inr f \<Rightarrow> Inr [p, r, f])))"

text \<open>
  \<^verbatim>\<open>for cls in self.classes_: self.matrix.append(...)\<close>: the rows are appended to the list
  in place, so the rows built before an exception stay in \<^verbatim>\<open>self.matrix\<close>.
\<close>

fun append_rows ::
  "('c, 'v) report_scores option \<Rightarrow> 'c list \<Rightarrow> 'v list list \<Rightarrow> (error + unit) \<times> 'v list list" where
  "append_rows sc [] m = (Inr (), m)"
| "append_rows sc (cls # rest) m =
     (case matrix_row sc cls of
        Inl e \<Rightarrow> (Inl e, m)
      | Inr row \<Rightarrow> append_rows sc rest (m @ [row]))"

text \<open>
  The inner loop \<^verbatim>\<open>for row in range(len(self.classes_))\<close> for one column, and the outer
  loop \<^verbatim>\<open>for column in range(len(self.matrix)+1)\<close>. Each step reads
  \<^verbatim>\<open>self.matrix[row][column]\<close> and calls \<^verbatim>\<open>self.ax.text\<close>.
\<close>

fun annotate_column ::
  "'ax \<Rightarrow> 'v list list \<Rightarrow> nat \<Rightarrow> nat list \<Rightarrow> (('c, 'v, 'cm, 'ax) report_call, 'ax) pyplot
     \<Rightarrow> (error + unit) \<times> (('c, 'v, 'cm, 'ax) report_call, 'ax) pyplot" where
  "annotate_column a m column [] w = (Inr (), w)"
| "annotate_column a m column (row # rows) w =
     (case list_getitem m row of
        Inl e \<Rightarrow> (Inl e, w)
      | Inr r \<Rightarrow>
          (case list_getitem r column of
             Inl e \<Rightarrow> (Inl e, w)
           | Inr v \<Rightarrow> annotate_column a m column rows (plt (AxText a column row v) w)))"

fun annotate ::
  "'ax \<Rightarrow> 'v list list \<Rightarrow> nat list \<Rightarrow> nat list \<Rightarrow> (('c, 'v, 'cm, 'ax) report_call, 'ax) pyplot
     \<Rightarrow> (error + unit) \<times> (('c, 'v, 'cm, 'ax) report_call, 'ax) pyplot" where
  "annotate a m [] rows w = (Inr (), w)"
| "annotate a m (column # columns) rows w =
     (case annotate_column a m column rows w of
        (Inl e, w') \<Rightarrow> (Inl e, w')
      | (Inr _, w') \<Rightarrow> annotate a m columns rows w')"

text \<open>
  \<^verbatim>\<open>ClassificationReport.draw\<close>. The arguments \<^verbatim>\<open>y\<close> and \<^verbatim>\<open>y_pred\<close> are not used by the
  body.
\<close>

definition ClassificationReport_draw ::
  "'yv \<Rightarrow> 'yv \<Rightarrow> ('est, 'ax, 'c, 'v, 'cm) classification_report
     \<Rightarrow> (('c, 'v, 'cm, 'ax) report_call, 'ax) pyplot
     \<Rightarrow> (error + 'ax pyret) \<times> ('est, 'ax, 'c, 'v, 'cm) classification_report
          \<times> (('c, 'v, 'cm, 'ax) report_call, 'ax) pyplot" where
  "ClassificationReport_draw y y_pred st w =
     (let st1 = ensure_ax st w;
          st2 = st1\<lparr>matrix := Some []\<rparr>
      in case cr_classes st2 of
           None \<Rightarrow> (Inl TypeError, st2, w)
         | Some cs \<Rightarrow>
             (case append_rows (cr_scores st2) cs [] of
                (Inl e, m) \<Rightarrow> (Inl e, st2\<lparr>matrix := Some m\<rparr>, w)
              | (Inr _, m) \<Rightarrow>
                  (let st3 = st2\<lparr>matrix := Some m\<rparr> in
                   case ax st3 of
                     None \<Rightarrow> (Inl AttributeError, st3, w)
                   | Some a \<Rightarrow>
                       (case annotate a m (arange (length m + 1)) (arange (length cs)) w of
                          (Inl e, w') \<Rightarrow> (Inl e, st3, w')
                        | (Inr _, w') \<Rightarrow>
                            (Inr (return_ax st3), st3, plt (Imshow m (cmap st3)) w')))))"

text \<open>
  \<^verbatim>\<open>ClassificationReport.score\<close>. \<open>predict\<close> is the inherited \<^verbatim>\<open>self.predict\<close>, the
  prediction of the wrapped estimator, and \<open>precision_recall_fscore_support\<close> the function
  of \<^verbatim>\<open>sklearn.metrics\<close>; both are parameters and may fail. \<^verbatim>\<open>map\<close> is taken as building
  its list at once: with \<^verbatim>\<open>classes_\<close> being \<^verbatim>\<open>None\<close>, \<^verbatim>\<open>zip\<close> raises and \<^verbatim>\<open>scores\<close> keeps
  the tuple.
\<close>

definition ClassificationReport_score ::
  "('est \<Rightarrow> 'x \<Rightarrow> error + 'yv) \<Rightarrow> ('yv \<Rightarrow> 'yv \<Rightarrow> error + 'v prfs) \<Rightarrow> 'x \<Rightarrow> 'yv
     \<Rightarrow> ('est, 'ax, 'c, 'v, 'cm) classification_report
     \<Rightarrow> (('c, 'v, 'cm, 'ax) report_call, 'ax) pyplot
     \<Rightarrow> (error + 'ax pyret) \<times> ('est, 'ax, 'c, 'v, 'cm) classification_report
          \<times> (('c, 'v, 'cm, 'ax) report_call, 'ax) pyplot" where
  "ClassificationReport_score predict precision_recall_fscore_support X y st w =
     (case predict (estimator st) X of
        Inl e \<Rightarrow> (Inl e, st, w)
      | Inr y_pred \<Rightarrow>
          (case precision_recall_fscore_support y y_pred of
             Inl e \<Rightarrow> (Inl e, st, w)
           | Inr t \<Rightarrow>
               (let keys = [''precision'', ''recall'', ''f1''];
                    st1 = st\<lparr>cr_scores := Some (Raw t)\<rparr>
                in case cr_classes st1 of
                     None \<Rightarrow> (Inl TypeError, st1, w)
                   | Some cs \<Rightarrow>
                       (let per_class = map (\<lambda>s. dict (zip cs s)) (take 3 (components t));
                            st2 = st1\<lparr>cr_scores := Some (PerClass (dict (zip keys per_class)))\<rparr>
                        in ClassificationReport_draw y y_pred st2 w))))"

text \<open>
  \<^verbatim>\<open>ClassificationReport.finalize\<close>. The colorbar needs the image that \<^verbatim>\<open>draw\<close> shows
  last, and the three labels of the x axis are given \<^verbatim>\<open>len(self.classes_)+1\<close> marks.
\<close>

definition ClassificationReport_finalize ::
  "('est, 'ax, 'c, 'v, 'cm) classification_report
     \<Rightarrow> (('c, 'v, 'cm, 'ax) report_call, 'ax) pyplot
     \<Rightarrow> (error + 'ax pyret) \<times> ('est, 'ax, 'c, 'v, 'cm) classification_report
          \<times> (('c, 'v, 'cm, 'ax) report_call, 'ax) pyplot" where
  "ClassificationReport_finalize st w =
     (let w1 = plt (Title (name st @ '' Classification Report'')) w
      in case colorbar w1 of
           Inl e \<Rightarrow> (Inl e, st, w1)
         | Inr w2 \<Rightarrow>
             (case cr_classes st of
                None \<Rightarrow> (Inl TypeError, st, w2)
              | Some cs \<Rightarrow>
                  (let x_tick_marks = arange (length cs + 1);
                       y_tick_marks = arange (length cs);
                       labels = [''precision'', ''recall'', ''f1-score'']
                   in case ticks (Xticks x_tick_marks labels) x_tick_marks labels w2 of
                        Inl e \<Rightarrow> (Inl e, st, w2)
                      | Inr w3 \<Rightarrow>
                          (case ticks (Yticks y_tick_marks cs) y_tick_marks cs w3 of
                             Inl e \<Rightarrow> (Inl e, st, w3)
                           | Inr w4 \<Rightarrow>
                               (let w5 = plt (Ylabel ''Classes'') w4;
                                    w6 = plt (Xlabel ''Measures'') w5
                                in (Inr (return_ax st), st, w6))))))"

text \<open>\<^verbatim>\<open>ClassificationReport.poof\<close>.\<close>

definition ClassificationReport_poof ::
  "('est, 'ax, 'c, 'v, 'cm) classification_report
     \<Rightarrow> (('c, 'v, 'cm, 'ax) report_call, 'ax) pyplot
     \<Rightarrow> (error + 'ax pyret) \<times> ('est, 'ax, 'c, 'v, 'cm) classification_report
          \<times> (('c, 'v, 'cm, 'ax) report_call, 'ax) pyplot" where
  "ClassificationReport_poof st w =
     (case ax st of
        None \<Rightarrow> (Inr RetNone, st, w)
      | Some _ \<Rightarrow>
          (case ClassificationReport_finalize st w of
             (Inl e, st1, w1) \<Rightarrow> (Inl e, st1, w1)
           | (Inr _, st1, w1) \<Rightarrow> (Inr (return_ax st1), st1, plt Show w1)))"


section \<open>ROCAUC\<close>

text \<open>
  The instance attributes of a \<^verbatim>\<open>ROCAUC\<close>. \<open>roc_colors\<close> is the attribute \<^verbatim>\<open>colors\<close>, a
  dictionary here. \<^verbatim>\<open>fpr\<close>, \<^verbatim>\<open>tpr\<close>, \<^verbatim>\<open>thresholds\<close> and \<^verbatim>\<open>roc_auc\<close> do not exist before
  \<^verbatim>\<open>score\<close> assigns them.
\<close>

record ('est, 'ax, 'arr, 'auc) rocauc = "('est, 'ax) score_visualizer" +
  roc_colors :: "(string, string) dict"
  fpr :: "'arr option"
  tpr :: "'arr option"
  thresholds :: "'arr option"
  roc_auc :: "'auc option"

text \<open>
  The calls a \<^verbatim>\<open>ROCAUC\<close> makes on the plotting library:
  \<^verbatim>\<open>plt.plot(fpr, tpr, c=color, label='AUC = {:0.2f}'.format(roc_auc))\<close>, where the label
  is kept as the number it formats; \<^verbatim>\<open>plt.plot([0,1],[0,1],'m--',c=color)\<close>;
  \<^verbatim>\<open>plt.title(s)\<close>; \<^verbatim>\<open>plt.legend(loc='lower right')\<close>; \<^verbatim>\<open>plt.xlim([-0.02,1])\<close>;
  \<^verbatim>\<open>plt.ylim([0,1.1])\<close>; \<^verbatim>\<open>plt.show()\<close>.
\<close>

datatype ('arr, 'auc) roc_call =
    Plot 'arr 'arr string 'auc
  | PlotDiagonal string
  | RocTitle string
  | Legend
  | Xlim
  | Ylim
  | RocShow

text \<open>\<^verbatim>\<open>ROCAUC.__init__\<close>; the constructor reads the keyword arguments \<^verbatim>\<open>roc_color\<close> and
  \<^verbatim>\<open>diagonal_color\<close>.\<close>

definition ROCAUC_init ::
  "('est \<Rightarrow> bool) \<Rightarrow> ('est \<Rightarrow> string) \<Rightarrow> 'est \<Rightarrow> 'ax option \<Rightarrow> (string \<rightharpoonup> string)
     \<Rightarrow> error + ('est, 'ax, 'arr, 'auc) rocauc" where
  "ROCAUC_init isclassifier get_model_name model ax0 kwargs =
     (case ClassificationScoreVisualizer_init isclassifier get_model_name model ax0 of
        Inl e \<Rightarrow> Inl e
      | Inr b \<Rightarrow>
          Inr \<lparr>ax = ax b, estimator = estimator b, name = name b,
               roc_colors = dict
                 [(''roc'', case kwargs ''roc_color'' of None \<Rightarrow> ''#2B94E9'' | Some c \<Rightarrow> c),
                  (''diagonal'',
                     case kwargs ''diagonal_color'' of None \<Rightarrow> ''#666666'' | Some c \<Rightarrow> c)],
               fpr = None, tpr = None, thresholds = None, roc_auc = None\<rparr>)"

text \<open>\<^verbatim>\<open>ROCAUC.draw\<close>; the arguments \<^verbatim>\<open>y\<close> and \<^verbatim>\<open>y_pred\<close> are not used by the body.\<close>

definition ROCAUC_draw ::
  "'yv \<Rightarrow> 'yv \<Rightarrow> ('est, 'ax, 'arr, 'auc) rocauc \<Rightarrow> (('arr, 'auc) roc_call, 'ax) pyplot
     \<Rightarrow> (error + 'ax pyret) \<times> ('est, 'ax, 'arr, 'auc) rocauc
          \<times> (('arr, 'auc) roc_call, 'ax) pyplot" where
  "ROCAUC_draw y y_pred st w =
     (let st1 = ensure_ax st w
      in case fpr st1 of
           None \<Rightarrow> (Inl AttributeError, st1, w)
         | Some f \<Rightarrow>
             (case tpr st1 of
                None \<Rightarrow> (Inl AttributeError, st1, w)
              | Some t \<Rightarrow>
                  (case getitem (roc_colors st1) ''roc'' of
                     Inl e \<Rightarrow> (Inl e, st1, w)
                   | Inr c \<Rightarrow>
                       (case roc_auc st1 of
                          None \<Rightarrow> (Inl AttributeError, st1, w)
                        | Some a \<Rightarrow>
                            (let w1 = plt (Plot f t c a) w
                             in case getitem (roc_colors st1) ''diagonal'' of
                                  Inl e \<Rightarrow> (Inl e, st1, w1)
                                | Inr c' \<Rightarrow>
                                    (Inr (return_ax st1), st1, plt (PlotDiagonal c') w1))))))"

text \<open>
  \<^verbatim>\<open>ROCAUC.score\<close>. \<open>roc_curve\<close> and \<open>auc\<close> are the functions of \<^verbatim>\<open>sklearn.metrics\<close>,
  parameters that may fail.
\<close>

definition ROCAUC_score ::
  "('est \<Rightarrow> 'x \<Rightarrow> error + 'yv) \<Rightarrow> ('yv \<Rightarrow> 'yv \<Rightarrow> error + 'arr \<times> 'arr \<times> 'arr)
     \<Rightarrow> ('arr \<Rightarrow> 'arr \<Rightarrow> error + 'auc) \<Rightarrow> 'x \<Rightarrow> 'yv
     \<Rightarrow> ('est, 'ax, 'arr, 'auc) rocauc \<Rightarrow> (('arr, 'auc) roc_call, 'ax) pyplot
     \<Rightarrow> (error + 'ax pyret) \<times> ('est, 'ax, 'arr, 'auc) rocauc
          \<times> (('arr, 'auc) roc_call, 'ax) pyplot" where
  "ROCAUC_score predict roc_curve auc X y st w =
     (case predict (estimator st) X of
        Inl e \<Rightarrow> (Inl e, st, w)
      | Inr y_pred \<Rightarrow>
          (case roc_curve y y_pred of
             Inl e \<Rightarrow> (Inl e, st, w)
           | Inr (f, t, th) \<Rightarrow>
               (let st1 = st\<lparr>fpr := Some f, tpr := Some t, thresholds := Some th\<rparr>
                in case auc f t of
                     Inl e \<Rightarrow> (Inl e, st1, w)
                   | Inr a \<Rightarrow> ROCAUC_draw y y_pred (st1\<lparr>roc_auc := Some a\<rparr>) w)))"

text \<open>\<^verbatim>\<open>ROCAUC.poof\<close>.\<close>

definition ROCAUC_poof ::
  "('est, 'ax, 'arr, 'auc) rocauc \<Rightarrow> (('arr, 'auc) roc_call, 'ax) pyplot
     \<Rightarrow> (error + 'ax pyret) \<times> ('est, 'ax, 'arr, 'auc) rocauc
          \<times> (('arr, 'auc) roc_call, 'ax) pyplot" where
  "ROCAUC_poof st w =
     (case ax st of
        None \<Rightarrow> (Inr RetNone, st, w)
      | Some _ \<Rightarrow>
          (let w1 = plt (RocTitle (''ROC for '' @ name st)) w;
               w2 = plt Legend w1;
               w3 = plt Xlim w2;
               w4 = plt Ylim w3;
               w5 = plt RocShow w4
           in (Inr (return_ax st), st, w5)))"


section \<open>ClassBalance\<close>

text \<open>
  The instance attributes of a \<^verbatim>\<open>ClassBalance\<close>: \<open>cb_colors\<close>, \<open>cb_classes\<close> and
  \<open>cb_scores\<close> are the attributes \<^verbatim>\<open>colors\<close> (a list here), \<^verbatim>\<open>classes_\<close> and \<^verbatim>\<open>scores\<close>
  (the tuple of four arrays). \<^verbatim>\<open>scores\<close> and \<^verbatim>\<open>support\<close> do not exist before \<^verbatim>\<open>score\<close>
  assigns them.
\<close>

record ('est, 'ax, 'c, 'v, 'col) class_balance = "('est, 'ax) score_visualizer" +
  cb_colors :: "'col list"
  cb_classes :: "'c list option"
  cb_scores :: "'v prfs option"
  support :: "('c, 'v) dict option"

text \<open>
  The calls a \<^verbatim>\<open>ClassBalance\<close> makes on the plotting library:
  \<^verbatim>\<open>plt.bar(positions, heights, color=colors, align='center', width=0.5)\<close>,
  \<^verbatim>\<open>plt.xticks(marks, labels)\<close>, \<^verbatim>\<open>plt.ylim(0, ceiling)\<close> with
  \<^verbatim>\<open>ceiling = cmax + cmax*0.1\<close>, kept as the \<^verbatim>\<open>cmax\<close> it is computed from, and
  \<^verbatim>\<open>plt.show()\<close>.
\<close>

datatype ('c, 'v, 'col) balance_call =
    Bar "nat list" "'v list" "'col list"
  | BalanceXticks "nat list" "'c list"
  | YlimCeiling 'v
  | BalanceShow

text \<open>
  \<^verbatim>\<open>ClassBalance.__init__\<close>. \<open>paired\<close> is \<^verbatim>\<open>YELLOWBRICK_PALETTES['paired']\<close> of
  \<^verbatim>\<open>yellowbrick/style/palettes.py\<close>, a parameter; the constructor reads the keyword
  argument \<^verbatim>\<open>colors\<close>.
\<close>

definition ClassBalance_init ::
  "('est \<Rightarrow> bool) \<Rightarrow> ('est \<Rightarrow> string) \<Rightarrow> 'col list \<Rightarrow> 'est \<Rightarrow> 'ax option \<Rightarrow> 'c list option
     \<Rightarrow> (string \<rightharpoonup> 'col list) \<Rightarrow> error + ('est, 'ax, 'c, 'v, 'col) class_balance" where
  "ClassBalance_init isclassifier get_model_name paired model ax0 classes kwargs =
     (case ClassificationScoreVisualizer_init isclassifier get_model_name model ax0 of
        Inl e \<Rightarrow> Inl e
      | Inr b \<Rightarrow>
          Inr \<lparr>ax = ax b, estimator = estimator b, name = name b,
               cb_colors = (case kwargs ''colors'' of None \<Rightarrow> paired | Some c \<Rightarrow> c),
               cb_classes = classes, cb_scores = None, support = None\<rparr>)"

text \<open>\<^verbatim>\<open>ClassBalance.fit\<close>.\<close>

definition ClassBalance_fit ::
  "('x \<Rightarrow> 'yv \<Rightarrow> 'est \<Rightarrow> error + 'est) \<Rightarrow> ('est \<Rightarrow> 'c list option) \<Rightarrow> 'x \<Rightarrow> 'yv
     \<Rightarrow> ('est, 'ax, 'c, 'v, 'col) class_balance
     \<Rightarrow> (error + 'ax pyret) \<times> ('est, 'ax, 'c, 'v, 'col) class_balance" where
  "ClassBalance_fit est_fit est_classes X y st =
     (case ScoreVisualizer_fit est_fit X y st of
        Inl e \<Rightarrow> (Inl e, st)
      | Inr st1 \<Rightarrow>
          (case cb_classes st1 of
             None \<Rightarrow>
               (case est_classes (estimator st1) of
                  None \<Rightarrow> (Inl AttributeError, st1)
                | Some cs \<Rightarrow> (Inr RetSelf, st1\<lparr>cb_classes := Some cs\<rparr>))
           | Some _ \<Rightarrow> (Inr RetSelf, st1)))"

text \<open>\<^verbatim>\<open>ClassBalance.draw\<close>.\<close>

definition ClassBalance_draw ::
  "('est, 'ax, 'c, 'v, 'col) class_balance \<Rightarrow> (('c, 'v, 'col) balance_call, 'ax) pyplot
     \<Rightarrow> (error + 'ax pyret) \<times> ('est, 'ax, 'c, 'v, 'col) class_balance
          \<times> (('c, 'v, 'col) balance_call, 'ax) pyplot" where
  "ClassBalance_draw st w =
     (let st1 = ensure_ax st w
      in case cb_classes st1 of
           None \<Rightarrow> (Inl TypeError, st1, w)
         | Some cs \<Rightarrow>
             (let colors = take (length cs) (cb_colors st1)
              in case support st1 of
                   None \<Rightarrow> (Inl AttributeError, st1, w)
                 | Some sp \<Rightarrow>
                     (Inr (return_ax st1), st1,
                      plt (Bar (arange (length sp)) (dict_values sp) colors) w)))"

text \<open>\<^verbatim>\<open>ClassBalance.score\<close>.\<close>

definition ClassBalance_score ::
  "('est \<Rightarrow> 'x \<Rightarrow> error + 'yv) \<Rightarrow> ('yv \<Rightarrow> 'yv \<Rightarrow> error + 'v prfs) \<Rightarrow> 'x \<Rightarrow> 'yv
     \<Rightarrow> ('est, 'ax, 'c, 'v, 'col) class_balance \<Rightarrow> (('c, 'v, 'col) balance_call, 'ax) pyplot
     \<Rightarrow> (error + 'ax pyret) \<times> ('est, 'ax, 'c, 'v, 'col) class_balance
          \<times> (('c, 'v, 'col) balance_call, 'ax) pyplot" where
  "ClassBalance_score predict precision_recall_fscore_support X y st w =
     (case predict (estimator st) X of
        Inl e \<Rightarrow> (Inl e, st, w)
      | Inr y_pred \<Rightarrow>
          (case precision_recall_fscore_support y y_pred of
             Inl e \<Rightarrow> (Inl e, st, w)
           | Inr t \<Rightarrow>
               (let st1 = st\<lparr>cb_scores := Some t\<rparr>
                in case cb_classes st1 of
                     None \<Rightarrow> (Inl TypeError, st1, w)
                   | Some cs \<Rightarrow>
                       ClassBalance_draw
                         (st1\<lparr>support := Some (dict (zip cs (last (components t))))\<rparr>) w)))"

text \<open>\<^verbatim>\<open>ClassBalance.poof\<close>. The local \<^verbatim>\<open>span = cmax - cmin\<close> is computed and not used.\<close>

definition ClassBalance_poof ::
  "('est, 'ax, 'c, 'v::linorder, 'col) class_balance
     \<Rightarrow> (('c, 'v, 'col) balance_call, 'ax) pyplot
     \<Rightarrow> (error + 'ax pyret) \<times> ('est, 'ax, 'c, 'v, 'col) class_balance
          \<times> (('c, 'v, 'col) balance_call, 'ax) pyplot" where
  "ClassBalance_poof st w =
     (case ax st of
        None \<Rightarrow> (Inr RetNone, st, w)
      | Some _ \<Rightarrow>
          (case support st of
             None \<Rightarrow> (Inl AttributeError, st, w)
           | Some sp \<Rightarrow>
               (case ticks (BalanceXticks (arange (length sp)) (dict_keys sp))
                       (arange (length sp)) (dict_keys sp) w of
                  Inl e \<Rightarrow> (Inl e, st, w)
                | Inr w1 \<Rightarrow>
                    (case py_max (dict_values sp) of
                       Inl e \<Rightarrow> (Inl e, st, w1)
                     | Inr cmax \<Rightarrow>
                         (case py_min (dict_values sp) of
                            Inl e \<Rightarrow> (Inl e, st, w1)
                          | Inr cmin \<Rightarrow>
                              (let w2 = plt (YlimCeiling cmax) w1;
                                   w3 = plt BalanceShow w2
                               in (Inr (return_ax st), st, w3)))))))"


section \<open>Example inputs\<close>

text \<open>
  Concrete inputs on which the theorems below are evaluated. Estimators are numbers:
  \<open>0\<close> is an estimator that is not a classifier, \<open>1\<close> a classifier and \<open>2\<close> a fitted
  classifier with the classes \<^verbatim>\<open>ham\<close> and \<^verbatim>\<open>spam\<close>. Scores are numbers too (percentages),
  the axes that \<^verbatim>\<open>plt.gca()\<close> returns is \<open>7\<close>. \<open>ex_plot\<close> is the plotting library before
  any call, \<open>ex_plot_drawn\<close> after \<^verbatim>\<open>score\<close> of the report with the classes \<^verbatim>\<open>ham\<close> and
  \<^verbatim>\<open>spam\<close>.
\<close>

definition ex_plot :: "('call, nat) pyplot" where
  "ex_plot = \<lparr>gca = 7, calls = []\<rparr>"

definition ex_plot_drawn :: "((string, nat, string, nat) report_call, nat) pyplot" where
  "ex_plot_drawn =
     \<lparr>gca = 7,
      calls = [AxText 7 0 0 50, AxText 7 0 1 100, AxText 7 1 0 100, AxText 7 1 1 75,
               AxText 7 2 0 67, AxText 7 2 1 86,
               Imshow [[50, 100, 67], [100, 75, 86]] ''ddlheatmap'']\<rparr>"

definition ex_isclassifier :: "nat \<Rightarrow> bool" where
  "ex_isclassifier model = (model \<noteq> 0)"

definition ex_get_model_name :: "nat \<Rightarrow> string" where
  "ex_get_model_name model = ''SVC''"

definition ex_est_fit :: "unit \<Rightarrow> nat list \<Rightarrow> nat \<Rightarrow> error + nat" where
  "ex_est_fit X y est = Inr 2"

definition ex_est_classes :: "nat \<Rightarrow> string list option" where
  "ex_est_classes est = (if est = 2 then Some [''ham'', ''spam''] else None)"

definition ex_predict :: "nat \<Rightarrow> unit \<Rightarrow> error + nat list" where
  "ex_predict est X = Inr [0, 1, 1]"

definition ex_prfs2 :: "nat list \<Rightarrow> nat list \<Rightarrow> error + nat prfs" where
  "ex_prfs2 y y_pred = Inr ([50, 100], [100, 75], [67, 86], [1, 2])"

definition ex_prfs3 :: "nat list \<Rightarrow> nat list \<Rightarrow> error + nat prfs" where
  "ex_prfs3 y y_pred = Inr ([50, 100, 80], [100, 75, 80], [67, 86, 80], [1, 2, 5])"

definition ex_roc_curve ::
  "nat list \<Rightarrow> nat list \<Rightarrow> error + nat list \<times> nat list \<times> nat list" where
  "ex_roc_curve y y_pred = Inr ([0, 0, 100], [0, 100, 100], [2, 1, 0])"

definition ex_auc :: "nat list \<Rightarrow> nat list \<Rightarrow> error + nat" where
  "ex_auc f t = Inr 100"

definition ex_report ::
  "string list option \<Rightarrow> (nat, nat, string, nat, string) classification_report" where
  "ex_report classes =
     \<lparr>ax = None, estimator = 1, name = ''SVC'', cmap = ''ddlheatmap'', cr_classes = classes,
      cr_scores = None, matrix = None\<rparr>"

definition ex_report_scored :: "(nat, nat, string, nat, string) classification_report" where
  "ex_report_scored =
     \<lparr>ax = Some 7, estimator = 1, name = ''SVC'', cmap = ''ddlheatmap'',
      cr_classes = Some [''ham'', ''spam''],
      cr_scores = Some (PerClass
        [(''precision'', [(''ham'', 50), (''spam'', 100)]),
         (''recall'', [(''ham'', 100), (''spam'', 75)]),
         (''f1'', [(''ham'', 67), (''spam'', 86)])]),
      matrix = Some [[50, 100, 67], [100, 75, 86]]\<rparr>"

definition ex_rocauc :: "(nat, nat, nat list, nat) rocauc" where
  "ex_rocauc =
     \<lparr>ax = None, estimator = 1, name = ''SVC'',
      roc_colors = [(''roc'', ''#2B94E9''), (''diagonal'', ''#666666'')],
      fpr = None, tpr = None, thresholds = None, roc_auc = None\<rparr>"

definition ex_rocauc_scored :: "(nat, nat, nat list, nat) rocauc" where
  "ex_rocauc_scored =
     \<lparr>ax = Some 7, estimator = 1, name = ''SVC'',
      roc_colors = [(''roc'', ''#2B94E9''), (''diagonal'', ''#666666'')],
      fpr = Some [0, 0, 100], tpr = Some [0, 100, 100], thresholds = Some [2, 1, 0],
      roc_auc = Some 100\<rparr>"

definition ex_balance ::
  "string list option \<Rightarrow> (nat, nat, string, nat, string) class_balance" where
  "ex_balance classes =
     \<lparr>ax = None, estimator = 1, name = ''SVC'',
      cb_colors = [''#a6cee3'', ''#1f78b4'', ''#b2df8a''],
      cb_classes = classes, cb_scores = None, support = None\<rparr>"

definition ex_balance_scored :: "(nat, nat, string, nat, string) class_balance" where
  "ex_balance_scored =
     \<lparr>ax = Some 7, estimator = 1, name = ''SVC'',
      cb_colors = [''#a6cee3'', ''#1f78b4'', ''#b2df8a''],
      cb_classes = Some [''ham'', ''spam''],
      cb_scores = Some ([50, 100], [100, 75], [67, 86], [1, 2]),
      support = Some [(''ham'', 1), (''spam'', 2)]\<rparr>"

lemmas ex_defs = ex_plot_def ex_plot_drawn_def ex_isclassifier_def ex_get_model_name_def ex_est_fit_def
  ex_est_classes_def ex_predict_def ex_prfs2_def ex_prfs3_def ex_roc_curve_def ex_auc_def
  ex_report_def ex_report_scored_def ex_rocauc_def ex_rocauc_scored_def ex_balance_def
  ex_balance_scored_def

lemmas model_defs = ClassificationReport_score_def ClassificationReport_draw_def
  ClassificationReport_poof_def ClassificationReport_finalize_def ClassificationReport_fit_def
  ClassificationReport_init_def ClassificationScoreVisualizer_init_def ScoreVisualizer_init_def
  ScoreVisualizer_fit_def ROCAUC_init_def ROCAUC_score_def ROCAUC_draw_def ROCAUC_poof_def
  ClassBalance_init_def ClassBalance_fit_def ClassBalance_score_def ClassBalance_draw_def
  ClassBalance_poof_def ensure_ax_def return_ax_def plt_def dict_def getitem_def
  list_getitem_def arange_def matrix_row_def score_of_def dict_keys_def dict_values_def
  py_max_def py_min_def ticks_def colorbar_def has_image_def Let_def


section \<open>Dictionaries\<close>

text \<open>
  Looking a key up after an assignment, the keys after an assignment, and that the keys
  stay pairwise distinct.
\<close>

lemma map_of_dict_set: "map_of (dict_set k v d) = (map_of d)(k \<mapsto> v)"
  by (induction d) auto

lemma keys_dict_set: "fst ` set (dict_set k v d) = insert k (fst ` set d)"
  by (simp add: map_of_dict_set flip: dom_map_of_conv_image_fst)

lemma distinct_dict_set: "distinct (map fst d) \<Longrightarrow> distinct (map fst (dict_set k v d))"
proof (induction d)
  case Nil
  then show ?case by simp
next
  case (Cons a d)
  obtain k' v' where a: "a = (k', v')" by (cases a)
  from Cons show ?case
    by (auto simp: a keys_dict_set)
qed

lemma dict_set_fresh: "k \<notin> fst ` set d \<Longrightarrow> dict_set k v d = d @ [(k, v)]"
  by (induction d) auto

text \<open>\<^verbatim>\<open>dict(pairs)\<close>: of the pairs with one key, the last decides the value.\<close>

lemma foldl_dict_set_map_of:
  "map_of (foldl (\<lambda>d (k, v). dict_set k v d) d0 ps) = map_of d0 ++ map_of (rev ps)"
proof (induction ps arbitrary: d0)
  case Nil
  then show ?case by simp
next
  case (Cons a ps)
  obtain k v where a: "a = (k, v)" by (cases a)
  show ?case
    by (simp add: a Cons.IH map_of_dict_set fun_eq_iff map_add_def split: option.splits)
qed

lemma map_of_dict: "map_of (dict ps) = map_of (rev ps)"
  by (simp add: dict_def foldl_dict_set_map_of)

lemma foldl_dict_set_keys:
  "fst ` set (foldl (\<lambda>d (k, v). dict_set k v d) d0 ps) = fst ` set d0 \<union> fst ` set ps"
proof (induction ps arbitrary: d0)
  case Nil
  then show ?case by simp
next
  case (Cons a ps)
  obtain k v where a: "a = (k, v)" by (cases a)
  show ?case by (simp add: a Cons.IH keys_dict_set)
qed

lemma set_dict_keys: "set (dict_keys (dict ps)) = fst ` set ps"
  by (simp add: dict_keys_def dict_def foldl_dict_set_keys)

lemma foldl_dict_set_distinct_keys:
  "distinct (map fst d0) \<Longrightarrow> distinct (map fst (foldl (\<lambda>d (k, v). dict_set k v d) d0 ps))"
proof (induction ps arbitrary: d0)
  case Nil
  then show ?case by simp
next
  case (Cons a ps)
  obtain k v where a: "a = (k, v)" by (cases a)
  from Cons.prems show ?case by (simp add: a Cons.IH distinct_dict_set)
qed

lemma distinct_dict_keys: "distinct (dict_keys (dict ps))"
  using foldl_dict_set_distinct_keys [of "[]" ps] by (simp add: dict_keys_def dict_def)

text \<open>Pairs with pairwise distinct keys are stored as they come.\<close>

lemma foldl_dict_set_distinct:
  "distinct (map fst (d0 @ ps)) \<Longrightarrow> foldl (\<lambda>d (k, v). dict_set k v d) d0 ps = d0 @ ps"
proof (induction ps arbitrary: d0)
  case Nil
  then show ?case by simp
next
  case (Cons a ps)
  obtain k v where a: "a = (k, v)" by (cases a)
  from Cons.prems have fresh: "k \<notin> fst ` set d0" by (auto simp: a)
  from Cons.prems have "distinct (map fst ((d0 @ [(k, v)]) @ ps))" by (auto simp: a)
  from Cons.IH [OF this] show ?case by (simp add: a dict_set_fresh [OF fresh])
qed

lemma dict_distinct: "distinct (map fst ps) \<Longrightarrow> dict ps = ps"
  using foldl_dict_set_distinct [of "[]" ps] by (simp add: dict_def)

text \<open>
  The pair at position \<open>i\<close> decides the value of its key when no later pair has the same
  key.
\<close>

lemma map_of_rev_last_occurrence:
  "i < length ps \<Longrightarrow> \<forall>j. i < j \<and> j < length ps \<longrightarrow> fst (ps ! j) \<noteq> fst (ps ! i)
     \<Longrightarrow> map_of (rev ps) (fst (ps ! i)) = Some (snd (ps ! i))"
proof (induction ps rule: rev_induct)
  case Nil
  then show ?case by simp
next
  case (snoc a ps)
  show ?case
  proof (cases "i = length ps")
    case True
    then show ?thesis by (cases a) simp
  next
    case False
    with snoc.prems(1) have i: "i < length ps" by simp
    from snoc.prems(2) i have "fst a \<noteq> fst (ps ! i)"
      by (auto simp: nth_append dest!: spec [of _ "length ps"])
    moreover have "\<forall>j. i < j \<and> j < length ps \<longrightarrow> fst (ps ! j) \<noteq> fst (ps ! i)"
    proof (intro allI impI)
      fix j assume j: "i < j \<and> j < length ps"
      with snoc.prems(2) have "fst ((ps @ [a]) ! j) \<noteq> fst ((ps @ [a]) ! i)" by simp
      with j i show "fst (ps ! j) \<noteq> fst (ps ! i)" by (simp add: nth_append)
    qed
    ultimately show ?thesis using snoc.IH [OF i] i
      by (cases a) (auto simp: nth_append)
  qed
qed

lemma getitem_dict_zip:
  assumes "i < length ks" "i < length vs"
      and "\<forall>j. i < j \<and> j < length ks \<and> j < length vs \<longrightarrow> ks ! j \<noteq> ks ! i"
  shows "getitem (dict (zip ks vs)) (ks ! i) = Inr (vs ! i)"
proof -
  have "map_of (rev (zip ks vs)) (fst (zip ks vs ! i)) = Some (snd (zip ks vs ! i))"
    using assms by (intro map_of_rev_last_occurrence) auto
  with assms show ?thesis by (simp add: getitem_def map_of_dict)
qed

lemma keys_dict_zip: "set (dict_keys (dict (zip ks vs))) = set (take (length vs) ks)"
proof -
  have "map fst (zip ks vs) = take (length vs) ks"
    by (simp add: map_fst_zip_take min_def)
  then show ?thesis by (simp add: set_dict_keys flip: set_map)
qed

lemma getitem_key: "k \<in> set (dict_keys d) \<Longrightarrow> \<exists>v. getitem d k = Inr v"
proof -
  assume "k \<in> set (dict_keys d)"
  then have "k \<in> dom (map_of d)" by (simp add: dict_keys_def dom_map_of_conv_image_fst)
  then show ?thesis by (auto simp: getitem_def)
qed

lemma getitem_dict_zip_defined:
  "c \<in> set ks \<Longrightarrow> length ks \<le> length vs \<Longrightarrow> \<exists>v. getitem (dict (zip ks vs)) c = Inr v"
  by (intro getitem_key) (simp add: keys_dict_zip)

lemma zip_by_index:
  "zip ks vs = map (\<lambda>i. (ks ! i, vs ! i)) [0..<min (length ks) (length vs)]"
  by (rule nth_equalityI) auto


section \<open>What \<^verbatim>\<open>draw\<close> changes\<close>

text \<open>
  \<^verbatim>\<open>draw\<close> assigns \<^verbatim>\<open>self.ax\<close> when it is \<^verbatim>\<open>None\<close>; the report's \<^verbatim>\<open>draw\<close> also assigns
  \<^verbatim>\<open>self.matrix\<close>. Nothing else of the instance changes, whether \<^verbatim>\<open>draw\<close> returns or
  raises.
\<close>

lemma ensure_ax_fields:
  "ax (ensure_ax st w) \<noteq> None"
  "ax st = Some a \<Longrightarrow> ensure_ax st w = st"
  by (simp_all add: ensure_ax_def split: option.splits)

lemma ROCAUC_draw_state: "fst (snd (ROCAUC_draw y y_pred st w)) = ensure_ax st w"
  by (simp add: ROCAUC_draw_def Let_def split: option.splits sum.splits)

lemma ClassBalance_draw_state: "fst (snd (ClassBalance_draw st w)) = ensure_ax st w"
  by (simp add: ClassBalance_draw_def Let_def split: option.splits sum.splits)

lemma ClassificationReport_draw_state:
  "\<exists>m. fst (snd (ClassificationReport_draw y y_pred st w)) = (ensure_ax st w)\<lparr>matrix := Some m\<rparr>"
  by (auto simp add: ClassificationReport_draw_def Let_def
      split: option.splits sum.splits prod.splits)

lemma ClassificationReport_draw_scores:
  "cr_scores (fst (snd (ClassificationReport_draw y y_pred st w))) = cr_scores st"
  using ClassificationReport_draw_state [of y y_pred st w]
  by (auto simp: ensure_ax_def split: option.splits)


section \<open>The constructor's validation\<close>

text \<open>
  Claim C1. Constructing a \<^verbatim>\<open>ClassificationScoreVisualizer\<close>, and so a
  \<^verbatim>\<open>ClassificationReport\<close>, a \<^verbatim>\<open>ROCAUC\<close> or a \<^verbatim>\<open>ClassBalance\<close>, raises an exception
  exactly when \<^verbatim>\<open>isclassifier(model)\<close> is false, and the exception is then
  \<^verbatim>\<open>YellowbrickTypeError\<close>; for a classifier the construction completes, whatever the
  other arguments are.
\<close>

theorem init_raises_iff_not_classifier:
  "(ClassificationScoreVisualizer_init isclassifier get_model_name model ax0 = Inl e)
     = (e = YellowbrickTypeError \<and> \<not> isclassifier model)
   \<and> (\<exists>v. ClassificationScoreVisualizer_init isclassifier get_model_name model ax0 = Inr v)
     = isclassifier model
   \<and> (ClassificationReport_init isclassifier get_model_name ddlheatmap model ax0 classes kw1
        = Inl e)
     = (e = YellowbrickTypeError \<and> \<not> isclassifier model)
   \<and> (\<exists>v. ClassificationReport_init isclassifier get_model_name ddlheatmap model ax0 classes kw1
        = Inr v)
     = isclassifier model
   \<and> (ROCAUC_init isclassifier get_model_name model ax0 kw2 = Inl e)
     = (e = YellowbrickTypeError \<and> \<not> isclassifier model)
   \<and> (\<exists>v. ROCAUC_init isclassifier get_model_name model ax0 kw2 = Inr v)
     = isclassifier model
   \<and> (ClassBalance_init isclassifier get_model_name paired model ax0 classes' kw3 = Inl e)
     = (e = YellowbrickTypeError \<and> \<not> isclassifier model)
   \<and> (\<exists>v. ClassBalance_init isclassifier get_model_name paired model ax0 classes' kw3 = Inr v)
     = isclassifier model"
  by (auto simp add: ClassificationScoreVisualizer_init_def ClassificationReport_init_def
      ROCAUC_init_def ClassBalance_init_def)

text \<open>
  The estimator \<open>0\<close> is rejected by each constructor; the classifier \<open>1\<close> gives the
  instances used as examples below.
\<close>

theorem init_raises_iff_not_classifier_witness:
  "ClassificationReport_init ex_isclassifier ex_get_model_name ''ddlheatmap'' 0 None
       (Some [''ham'', ''spam'']) Map.empty
     = (Inl YellowbrickTypeError :: error + (nat, nat, string, nat, string) classification_report)
   \<and> ROCAUC_init ex_isclassifier ex_get_model_name 0 None Map.empty
     = (Inl YellowbrickTypeError :: error + (nat, nat, nat list, nat) rocauc)
   \<and> ClassBalance_init ex_isclassifier ex_get_model_name [''#a6cee3'', ''#1f78b4'', ''#b2df8a'']
       0 None (Some [''ham'', ''spam'']) Map.empty
     = (Inl YellowbrickTypeError :: error + (nat, nat, string, nat, string) class_balance)
   \<and> ClassificationReport_init ex_isclassifier ex_get_model_name ''ddlheatmap'' 1 None
       (Some [''ham'', ''spam'']) Map.empty
     = Inr (ex_report (Some [''ham'', ''spam'']))
   \<and> ROCAUC_init ex_isclassifier ex_get_model_name 1 None Map.empty = Inr ex_rocauc
   \<and> ClassBalance_init ex_isclassifier ex_get_model_name [''#a6cee3'', ''#1f78b4'', ''#b2df8a'']
       1 None (Some [''ham'', ''spam'']) Map.empty
     = Inr (ex_balance (Some [''ham'', ''spam'']))"
  using init_raises_iff_not_classifier [of ex_isclassifier ex_get_model_name 0 None
      YellowbrickTypeError "''ddlheatmap''" "Some [''ham'', ''spam'']" Map.empty Map.empty
      "[''#a6cee3'', ''#1f78b4'', ''#b2df8a'']" "Some [''ham'', ''spam'']" Map.empty]
  by (simp add: ex_defs model_defs)


section \<open>The attributes that \<^verbatim>\<open>ROCAUC.score\<close> sets\<close>

text \<open>
  Claim C5. After \<^verbatim>\<open>ROCAUC.score(X, y)\<close> the attributes \<^verbatim>\<open>fpr\<close>, \<^verbatim>\<open>tpr\<close> and
  \<^verbatim>\<open>thresholds\<close> are the three arrays that \<^verbatim>\<open>roc_curve(y, predict(X))\<close> returned, and
  \<^verbatim>\<open>roc_auc\<close> is what \<^verbatim>\<open>auc(fpr, tpr)\<close> returned: \<^verbatim>\<open>score\<close> stores the results of the two
  library calls as they are. This holds whether the drawing that follows returns or not.
\<close>

theorem ROCAUC_score_attributes:
  assumes "predict (estimator st) X = Inr y_pred"
      and "roc_curve y y_pred = Inr (f, t, th)"
      and "auc f t = Inr a"
  shows "fpr (fst (snd (ROCAUC_score predict roc_curve auc X y st w))) = Some f
       \<and> tpr (fst (snd (ROCAUC_score predict roc_curve auc X y st w))) = Some t
       \<and> thresholds (fst (snd (ROCAUC_score predict roc_curve auc X y st w))) = Some th
       \<and> roc_auc (fst (snd (ROCAUC_score predict roc_curve auc X y st w))) = Some a"
  using assms by (simp add: ROCAUC_score_def ROCAUC_draw_state ensure_ax_def split: option.splits)

theorem ROCAUC_score_attributes_witness:
  "ex_predict (estimator ex_rocauc) () = Inr [0, 1, 1]
   \<and> ex_roc_curve [0, 1, 1] [0, 1, 1] = Inr ([0, 0, 100], [0, 100, 100], [2, 1, 0])
   \<and> ex_auc [0, 0, 100] [0, 100, 100] = Inr 100
   \<and> fst (snd (ROCAUC_score ex_predict ex_roc_curve ex_auc () [0, 1, 1] ex_rocauc
        (ex_plot :: ((nat list, nat) roc_call, nat) pyplot))) = ex_rocauc_scored"
proof -
  have h1: "ex_predict (estimator ex_rocauc) () = Inr [0, 1, 1]"
    by (simp add: ex_defs)
  have h2: "ex_roc_curve [0, 1, 1] [0, 1, 1] = Inr ([0, 0, 100], [0, 100, 100], [2, 1, 0])"
    by (simp add: ex_defs)
  have h3: "ex_auc [0, 0, 100] [0, 100, 100] = Inr 100"
    by (simp add: ex_defs)
  have "fst (snd (ROCAUC_score ex_predict ex_roc_curve ex_auc () [0, 1, 1] ex_rocauc
        (ex_plot :: ((nat list, nat) roc_call, nat) pyplot))) = ex_rocauc_scored"
    using ROCAUC_score_attributes [where predict = ex_predict and roc_curve = ex_roc_curve
        and auc = ex_auc and st = ex_rocauc and X = "()" and y = "[0, 1, 1]"
        and w = "ex_plot :: ((nat list, nat) roc_call, nat) pyplot", OF h1 h2 h3]
    by (simp add: ex_defs model_defs)
  with h1 h2 h3 show ?thesis by simp
qed


section \<open>The attribute that \<^verbatim>\<open>ClassBalance.score\<close> sets\<close>

text \<open>
  Claim C6. After \<^verbatim>\<open>ClassBalance.score(X, y)\<close> the attribute \<^verbatim>\<open>support\<close> is the
  dictionary built from the pairs of the \<open>i\<close>-th entry of \<^verbatim>\<open>classes_\<close> and the \<open>i\<close>-th
  entry of the last array that \<^verbatim>\<open>precision_recall_fscore_support(y, predict(X))\<close>
  returned, for the positions \<open>i\<close> that both have.
\<close>

theorem ClassBalance_score_support:
  assumes "predict (estimator st) X = Inr y_pred"
      and "precision_recall_fscore_support y y_pred = Inr (p, r, f, s)"
      and "cb_classes st = Some cs"
  shows "support (fst (snd (ClassBalance_score predict precision_recall_fscore_support X y st w)))
           = Some (dict (map (\<lambda>i. (cs ! i, s ! i)) [0..<min (length cs) (length s)]))"
  using assms
  by (simp add: ClassBalance_score_def ClassBalance_draw_state ensure_ax_def zip_by_index
      split: option.splits)

theorem ClassBalance_score_support_witness:
  "ex_predict (estimator (ex_balance (Some [''ham'', ''spam'']))) () = Inr [0, 1, 1]
   \<and> ex_prfs2 [0, 1, 1] [0, 1, 1] = Inr ([50, 100], [100, 75], [67, 86], [1, 2])
   \<and> cb_classes (ex_balance (Some [''ham'', ''spam''])) = Some [''ham'', ''spam'']
   \<and> support (fst (snd (ClassBalance_score ex_predict ex_prfs2 () [0, 1, 1]
        (ex_balance (Some [''ham'', ''spam'']))
        (ex_plot :: ((string, nat, string) balance_call, nat) pyplot))))
     = Some [(''ham'', 1), (''spam'', 2)]"
proof -
  have h1: "ex_predict (estimator (ex_balance (Some [''ham'', ''spam'']))) () = Inr [0, 1, 1]"
    by (simp add: ex_defs)
  have h2: "ex_prfs2 [0, 1, 1] [0, 1, 1] = Inr ([50, 100], [100, 75], [67, 86], [1, 2])"
    by (simp add: ex_defs)
  have h3: "cb_classes (ex_balance (Some [''ham'', ''spam''])) = Some [''ham'', ''spam'']"
    by (simp add: ex_defs)
  have "support (fst (snd (ClassBalance_score ex_predict ex_prfs2 () [0, 1, 1]
        (ex_balance (Some [''ham'', ''spam'']))
        (ex_plot :: ((string, nat, string) balance_call, nat) pyplot))))
     = Some [(''ham'', 1), (''spam'', 2)]"
    using ClassBalance_score_support [where predict = ex_predict
        and precision_recall_fscore_support = ex_prfs2
        and st = "ex_balance (Some [''ham'', ''spam''])" and X = "()" and y = "[0, 1, 1]"
        and w = "ex_plot :: ((string, nat, string) balance_call, nat) pyplot", OF h1 h2 h3]
    by (simp add: dict_def upt_rec)
  with h1 h2 h3 show ?thesis by simp
qed


section \<open>\<^verbatim>\<open>poof\<close> and \<^verbatim>\<open>finalize\<close> leave the instance as it is\<close>

text \<open>
  Claim C7. \<^verbatim>\<open>poof\<close> of a \<^verbatim>\<open>ClassificationReport\<close>, of a \<^verbatim>\<open>ROCAUC\<close> and of a
  \<^verbatim>\<open>ClassBalance\<close>, and \<^verbatim>\<open>finalize\<close> of a \<^verbatim>\<open>ClassificationReport\<close>, leave every instance
  attribute unchanged, whether they return or raise: they act on the plotting library
  only.
\<close>

theorem poof_finalize_frame:
  "fst (snd (ClassificationReport_poof st1 w1)) = st1
   \<and> fst (snd (ClassificationReport_finalize st1 w1)) = st1
   \<and> fst (snd (ROCAUC_poof st2 w2)) = st2
   \<and> fst (snd (ClassBalance_poof st3 w3)) = st3"
  by (simp add: ClassificationReport_poof_def ClassificationReport_finalize_def ROCAUC_poof_def
      ClassBalance_poof_def Let_def split: option.splits sum.splits prod.splits)

text \<open>
  On the instances that \<^verbatim>\<open>score\<close> has filled, \<^verbatim>\<open>poof\<close> makes its calls on the plotting
  library and the instance stays the same; so it does when \<^verbatim>\<open>poof\<close> of the report
  raises, for want of an image.
\<close>

theorem poof_finalize_frame_witness:
  "ClassificationReport_poof ex_report_scored ex_plot_drawn
     = (Inr (RetAx 7), ex_report_scored,
        \<lparr>gca = 7, calls = calls ex_plot_drawn @ [Title ''SVC Classification Report'', Colorbar,
           Xticks [0, 1, 2] [''precision'', ''recall'', ''f1-score''],
           Yticks [0, 1] [''ham'', ''spam''], Ylabel ''Classes'', Xlabel ''Measures'', Show]\<rparr>)
   \<and> ClassificationReport_poof ex_report_scored ex_plot
     = (Inl RuntimeError, ex_report_scored,
        \<lparr>gca = 7, calls = [Title ''SVC Classification Report'']\<rparr>)
   \<and> ROCAUC_poof ex_rocauc_scored ex_plot
     = (Inr (RetAx 7), ex_rocauc_scored,
        \<lparr>gca = 7, calls = [RocTitle ''ROC for SVC'', Legend, Xlim, Ylim, RocShow]\<rparr>)
   \<and> ClassBalance_poof ex_balance_scored ex_plot
     = (Inr (RetAx 7), ex_balance_scored,
        \<lparr>gca = 7, calls = [BalanceXticks [0, 1] [''ham'', ''spam''], YlimCeiling 2,
           BalanceShow]\<rparr>)"
  using poof_finalize_frame [of ex_report_scored ex_plot_drawn ex_rocauc_scored ex_plot
      ex_balance_scored ex_plot]
  by (simp add: ex_defs model_defs upt_rec)


section \<open>The per-class scores of \<^verbatim>\<open>ClassificationReport.score\<close>\<close>

text \<open>
  Claim C2, where the module's dictionaries cannot do what it says. With a class name
  that occurs twice in \<^verbatim>\<open>classes_\<close> the later pair replaces the earlier one: for the
  classes \<^verbatim>\<open>['ham', 'ham']\<close> and the precision array \<^verbatim>\<open>[50, 100]\<close>, the entry of
  \<^verbatim>\<open>classes_\<close> at position 0 is mapped to \<open>100\<close>, the array's entry at position 1, and
  not to the entry at position 0.
\<close>

theorem ClassificationReport_score_duplicate_classes:
  "score_of
     (cr_scores (fst (snd (ClassificationReport_score ex_predict ex_prfs2 () [0, 1, 1]
        (ex_report (Some [''ham'', ''ham''])) ex_plot))))
     ''precision'' ([''ham'', ''ham''] ! 0) = Inr 100
   \<and> ex_prfs2 [0, 1, 1] [0, 1, 1] = Inr ([50, 100], [100, 75], [67, 86], [1, 2])
   \<and> [50, 100] ! 0 \<noteq> (100 :: nat)"
  by (simp add: ex_defs model_defs)

text \<open>
  Claim C2, as the module has it. After \<^verbatim>\<open>ClassificationReport.score(X, y)\<close> the
  attribute \<^verbatim>\<open>scores\<close> is a dictionary with exactly the keys \<^verbatim>\<open>precision\<close>, \<^verbatim>\<open>recall\<close> and
  \<^verbatim>\<open>f1\<close>; the value of each key is \<^verbatim>\<open>dict(zip(classes_, array))\<close> for the first, second
  and third array that \<^verbatim>\<open>precision_recall_fscore_support(y, predict(X))\<close> returned, and
  the fourth array is left out. Each of these dictionaries has as keys the entries of
  \<^verbatim>\<open>classes_\<close> at the positions the array has, and maps the \<open>i\<close>-th entry of \<^verbatim>\<open>classes_\<close>
  to the \<open>i\<close>-th entry of the array for every position \<open>i\<close> of both at which no later such
  position holds the same class; so at every such position when the classes are pairwise
  distinct.
\<close>

theorem ClassificationReport_score_scores:
  assumes "predict (estimator st) X = Inr y_pred"
      and "precision_recall_fscore_support y y_pred = Inr (p, r, f, s)"
      and "cr_classes st = Some cs"
  shows "\<exists>d. cr_scores (fst (snd (ClassificationReport_score predict
                  precision_recall_fscore_support X y st w))) = Some (PerClass d)
           \<and> dict_keys d = [''precision'', ''recall'', ''f1'']
           \<and> getitem d ''precision'' = Inr (dict (zip cs p))
           \<and> getitem d ''recall'' = Inr (dict (zip cs r))
           \<and> getitem d ''f1'' = Inr (dict (zip cs f))
           \<and> (\<forall>arr \<in> {p, r, f}.
                 set (dict_keys (dict (zip cs arr))) = set (take (length arr) cs)
                 \<and> (\<forall>i. i < length cs \<and> i < length arr
                        \<and> (\<forall>j. i < j \<and> j < length cs \<and> j < length arr \<longrightarrow> cs ! j \<noteq> cs ! i)
                      \<longrightarrow> getitem (dict (zip cs arr)) (cs ! i) = Inr (arr ! i)))"
proof -
  let ?d = "[(''precision'', dict (zip cs p)), (''recall'', dict (zip cs r)),
             (''f1'', dict (zip cs f))]"
  have "cr_scores (fst (snd (ClassificationReport_score predict
          precision_recall_fscore_support X y st w))) = Some (PerClass ?d)"
    using assms
    by (simp add: ClassificationReport_score_def ClassificationReport_draw_scores dict_def)
  moreover have "dict_keys ?d = [''precision'', ''recall'', ''f1'']"
    by (simp add: dict_keys_def)
  moreover have "getitem ?d ''precision'' = Inr (dict (zip cs p))"
    "getitem ?d ''recall'' = Inr (dict (zip cs r))"
    "getitem ?d ''f1'' = Inr (dict (zip cs f))"
    by (simp_all add: getitem_def)
  moreover have "set (dict_keys (dict (zip cs arr))) = set (take (length arr) cs)
       \<and> (\<forall>i. i < length cs \<and> i < length arr
              \<and> (\<forall>j. i < j \<and> j < length cs \<and> j < length arr \<longrightarrow> cs ! j \<noteq> cs ! i)
            \<longrightarrow> getitem (dict (zip cs arr)) (cs ! i) = Inr (arr ! i))" for arr
    by (auto simp: keys_dict_zip intro!: getitem_dict_zip)
  ultimately show ?thesis by blast
qed

theorem ClassificationReport_score_scores_witness:
  "ex_predict (estimator (ex_report (Some [''ham'', ''spam'']))) () = Inr [0, 1, 1]
   \<and> ex_prfs2 [0, 1, 1] [0, 1, 1] = Inr ([50, 100], [100, 75], [67, 86], [1, 2])
   \<and> cr_classes (ex_report (Some [''ham'', ''spam''])) = Some [''ham'', ''spam'']
   \<and> cr_scores (fst (snd (ClassificationReport_score ex_predict ex_prfs2 () [0, 1, 1]
        (ex_report (Some [''ham'', ''spam''])) ex_plot)))
     = Some (PerClass
        [(''precision'', [(''ham'', 50), (''spam'', 100)]),
         (''recall'', [(''ham'', 100), (''spam'', 75)]),
         (''f1'', [(''ham'', 67), (''spam'', 86)])])"
proof -
  have h1: "ex_predict (estimator (ex_report (Some [''ham'', ''spam'']))) () = Inr [0, 1, 1]"
    by (simp add: ex_defs)
  have h2: "ex_prfs2 [0, 1, 1] [0, 1, 1] = Inr ([50, 100], [100, 75], [67, 86], [1, 2])"
    by (simp add: ex_defs)
  have h3: "cr_classes (ex_report (Some [''ham'', ''spam''])) = Some [''ham'', ''spam'']"
    by (simp add: ex_defs)
  from ClassificationReport_score_scores [where predict = ex_predict
      and precision_recall_fscore_support = ex_prfs2
      and st = "ex_report (Some [''ham'', ''spam''])" and X = "()" and y = "[0, 1, 1]"
      and w = ex_plot, OF h1 h2 h3]
  obtain d where d:
    "cr_scores (fst (snd (ClassificationReport_score ex_predict ex_prfs2 () [0, 1, 1]
        (ex_report (Some [''ham'', ''spam''])) ex_plot))) = Some (PerClass d)"
    "dict_keys d = [''precision'', ''recall'', ''f1'']"
    "getitem d ''precision'' = Inr (dict (zip [''ham'', ''spam''] [50, 100]))"
    "getitem d ''recall'' = Inr (dict (zip [''ham'', ''spam''] [100, 75]))"
    "getitem d ''f1'' = Inr (dict (zip [''ham'', ''spam''] [67, 86]))"
    by blast
  from d(2) obtain v1 v2 v3 where shape: "d = [(''precision'', v1), (''recall'', v2), (''f1'', v3)]"
    by (auto simp: dict_keys_def map_eq_Cons_conv)
  from d(3,4,5) have "v1 = [(''ham'', 50), (''spam'', 100)]" "v2 = [(''ham'', 100), (''spam'', 75)]"
    "v3 = [(''ham'', 67), (''spam'', 86)]"
    by (simp_all add: shape getitem_def dict_def)
  with d(1) shape h1 h2 h3 show ?thesis by simp
qed


section \<open>The matrix that \<^verbatim>\<open>ClassificationReport.draw\<close> builds\<close>

text \<open>
  A row is built when the three lookups for its class succeed; the first loop then appends
  one row per class, in order.
\<close>

lemma matrix_row_defined:
  assumes "\<forall>k \<in> set [''precision'', ''recall'', ''f1'']. \<exists>v. score_of sc k c = Inr v"
  shows "\<exists>row. matrix_row sc c = Inr row \<and> length row = 3
           \<and> map Inr row = [score_of sc ''precision'' c, score_of sc ''recall'' c,
                             score_of sc ''f1'' c]"
proof -
  from assms obtain p r f where
    "score_of sc ''precision'' c = Inr p" "score_of sc ''recall'' c = Inr r"
    "score_of sc ''f1'' c = Inr f"
    by auto
  then show ?thesis by (simp add: matrix_row_def)
qed

lemma append_rows_defined:
  assumes "\<forall>c \<in> set cs. \<forall>k \<in> set [''precision'', ''recall'', ''f1''].
             \<exists>v. score_of sc k c = Inr v"
  shows "\<exists>m. append_rows sc cs m0 = (Inr (), m0 @ m) \<and> length m = length cs
           \<and> (\<forall>row \<in> set m. length row = 3)
           \<and> map (map Inr) m
               = map (\<lambda>c. [score_of sc ''precision'' c, score_of sc ''recall'' c,
                            score_of sc ''f1'' c]) cs"
  using assms
proof (induction cs arbitrary: m0)
  case Nil
  then show ?case by simp
next
  case (Cons c cs)
  from Cons.prems obtain row where row: "matrix_row sc c = Inr row" "length row = 3"
    "map Inr row = [score_of sc ''precision'' c, score_of sc ''recall'' c, score_of sc ''f1'' c]"
    using matrix_row_defined [of sc c] by auto
  from Cons.prems have "\<forall>c \<in> set cs. \<forall>k \<in> set [''precision'', ''recall'', ''f1''].
      \<exists>v. score_of sc k c = Inr v"
    by simp
  from Cons.IH [OF this, of "m0 @ [row]"] obtain m where m:
    "append_rows sc cs (m0 @ [row]) = (Inr (), (m0 @ [row]) @ m)" "length m = length cs"
    "\<forall>row \<in> set m. length row = 3"
    "map (map Inr) m = map (\<lambda>c. [score_of sc ''precision'' c, score_of sc ''recall'' c,
                            score_of sc ''f1'' c]) cs"
    by blast
  show ?case
    by (rule exI [of _ "row # m"]) (use row m in simp)
qed

lemma ClassificationReport_draw_matrix_built:
  assumes "cr_classes st = Some cs"
      and "append_rows (cr_scores st) cs [] = (Inr (), m)"
  shows "matrix (fst (snd (ClassificationReport_draw y y_pred st w))) = Some m"
  using assms
  by (simp add: ClassificationReport_draw_def Let_def ensure_ax_def
      split: option.splits sum.splits prod.splits)

lemma ClassificationReport_draw_rows:
  assumes "cr_classes st = Some cs"
      and "\<forall>c \<in> set cs. \<forall>k \<in> set [''precision'', ''recall'', ''f1''].
             \<exists>v. score_of (cr_scores st) k c = Inr v"
  shows "\<exists>m. matrix (fst (snd (ClassificationReport_draw y y_pred st w))) = Some m
           \<and> length m = length cs
           \<and> map (map Inr) m
               = map (\<lambda>c. [score_of (cr_scores st) ''precision'' c,
                            score_of (cr_scores st) ''recall'' c,
                            score_of (cr_scores st) ''f1'' c]) cs"
proof -
  from append_rows_defined [OF assms(2), of "[]"] obtain m where m:
    "append_rows (cr_scores st) cs [] = (Inr (), m)" "length m = length cs"
    "map (map Inr) m = map (\<lambda>c. [score_of (cr_scores st) ''precision'' c,
        score_of (cr_scores st) ''recall'' c, score_of (cr_scores st) ''f1'' c]) cs"
    by auto
  from ClassificationReport_draw_matrix_built [OF assms(1) m(1), of y y_pred w] m(2,3)
  show ?thesis by simp
qed

text \<open>
  Claim C3. After \<^verbatim>\<open>ClassificationReport.draw\<close> the attribute \<^verbatim>\<open>matrix\<close> is a list with
  one row per entry of \<^verbatim>\<open>classes_\<close>, in the order of \<^verbatim>\<open>classes_\<close>, and the row of the class
  \<open>c\<close> is \<^verbatim>\<open>[scores['precision'][c], scores['recall'][c], scores['f1'][c]]\<close>. The lookups
  that the rows name have to exist, as they do for the dictionaries that \<^verbatim>\<open>score\<close> builds
  from arrays with an entry for every class. The matrix is complete before the annotation
  loop starts, so it is there also when that loop raises.
\<close>

theorem ClassificationReport_draw_matrix:
  assumes "cr_classes st = Some cs"
      and "\<forall>c \<in> set cs. \<forall>k \<in> set [''precision'', ''recall'', ''f1''].
             \<exists>v. score_of (cr_scores st) k c = Inr v"
  shows "\<exists>m. matrix (fst (snd (ClassificationReport_draw y y_pred st w))) = Some m
           \<and> length m = length cs
           \<and> map (map Inr) m
               = map (\<lambda>c. [score_of (cr_scores st) ''precision'' c,
                            score_of (cr_scores st) ''recall'' c,
                            score_of (cr_scores st) ''f1'' c]) cs"
  using assms by (rule ClassificationReport_draw_rows)

text \<open>
  For the classes \<^verbatim>\<open>ham\<close> and \<^verbatim>\<open>spam\<close> with their scores, drawn again on the instance that
  \<^verbatim>\<open>score\<close> has filled.
\<close>

theorem ClassificationReport_draw_matrix_witness:
  "cr_classes ex_report_scored = Some [''ham'', ''spam'']
   \<and> score_of (cr_scores ex_report_scored) ''precision'' ''ham'' = Inr 50
   \<and> score_of (cr_scores ex_report_scored) ''recall'' ''ham'' = Inr 100
   \<and> score_of (cr_scores ex_report_scored) ''f1'' ''ham'' = Inr 67
   \<and> score_of (cr_scores ex_report_scored) ''precision'' ''spam'' = Inr 100
   \<and> score_of (cr_scores ex_report_scored) ''recall'' ''spam'' = Inr 75
   \<and> score_of (cr_scores ex_report_scored) ''f1'' ''spam'' = Inr 86
   \<and> matrix (fst (snd (ClassificationReport_draw [0, 1, 1 :: nat] [0, 1, 1 :: nat]
        (ex_report_scored\<lparr>matrix := None\<rparr>) ex_plot)))
     = Some [[50, 100, 67], [100, 75, 86]]"
proof -
  have h1: "cr_classes (ex_report_scored\<lparr>matrix := None\<rparr>) = Some [''ham'', ''spam'']"
    by (simp add: ex_defs)
  have lookups:
    "score_of (cr_scores ex_report_scored) ''precision'' ''ham'' = Inr 50"
    "score_of (cr_scores ex_report_scored) ''recall'' ''ham'' = Inr 100"
    "score_of (cr_scores ex_report_scored) ''f1'' ''ham'' = Inr 67"
    "score_of (cr_scores ex_report_scored) ''precision'' ''spam'' = Inr 100"
    "score_of (cr_scores ex_report_scored) ''recall'' ''spam'' = Inr 75"
    "score_of (cr_scores ex_report_scored) ''f1'' ''spam'' = Inr 86"
    by (simp_all add: ex_defs score_of_def getitem_def)
  then have h2: "\<forall>c \<in> set [''ham'', ''spam'']. \<forall>k \<in> set [''precision'', ''recall'', ''f1''].
      \<exists>v. score_of (cr_scores (ex_report_scored\<lparr>matrix := None\<rparr>)) k c = Inr v"
    by simp
  from ClassificationReport_draw_matrix [OF h1 h2, of "[0, 1, 1 :: nat]" "[0, 1, 1 :: nat]" ex_plot]
  obtain m where m:
    "matrix (fst (snd (ClassificationReport_draw [0, 1, 1 :: nat] [0, 1, 1 :: nat]
        (ex_report_scored\<lparr>matrix := None\<rparr>) ex_plot))) = Some m"
    "map (map Inr) m
       = map (\<lambda>c. [score_of (cr_scores (ex_report_scored\<lparr>matrix := None\<rparr>)) ''precision'' c,
                    score_of (cr_scores (ex_report_scored\<lparr>matrix := None\<rparr>)) ''recall'' c,
                    score_of (cr_scores (ex_report_scored\<lparr>matrix := None\<rparr>)) ''f1'' c])
           [''ham'', ''spam'']"
    by blast
  from m(2) lookups have "map (map Inr) m
      = ([[Inr 50, Inr 100, Inr 67], [Inr 100, Inr 75, Inr 86]] :: (error + nat) list list)"
    by simp
  then have "m = [[50, 100, 67], [100, 75, 86]]"
    by (auto simp: map_eq_Cons_conv)
  with m(1) have built: "matrix (fst (snd (ClassificationReport_draw [0, 1, 1 :: nat] [0, 1, 1 :: nat]
      (ex_report_scored\<lparr>matrix := None\<rparr>) ex_plot))) = Some [[50, 100, 67], [100, 75, 86]]"
    by simp
  have h0: "cr_classes ex_report_scored = Some [''ham'', ''spam'']"
    by (simp add: ex_defs)
  show ?thesis by (intro conjI h0 lookups built)
qed

text \<open>
  When \<^verbatim>\<open>draw\<close> returns, the first loop has built every row, so every lookup existed and
  the matrix is the one described.
\<close>

lemma matrix_row_returns:
  "matrix_row sc c = Inr row
     \<Longrightarrow> \<forall>k \<in> set [''precision'', ''recall'', ''f1'']. \<exists>v. score_of sc k c = Inr v"
  by (auto simp: matrix_row_def split: sum.splits)

lemma append_rows_returns:
  "append_rows sc cs m0 = (Inr u, m)
     \<Longrightarrow> \<forall>c \<in> set cs. \<forall>k \<in> set [''precision'', ''recall'', ''f1''].
           \<exists>v. score_of sc k c = Inr v"
proof (induction cs arbitrary: m0)
  case Nil
  then show ?case by simp
next
  case (Cons c cs)
  from Cons.prems obtain row where row: "matrix_row sc c = Inr row"
    and rest: "append_rows sc cs (m0 @ [row]) = (Inr u, m)"
    by (auto split: sum.splits)
  from matrix_row_returns [OF row] Cons.IH [OF rest] show ?case by simp
qed

lemma ClassificationReport_draw_matrix_on_return:
  assumes "fst (ClassificationReport_draw y y_pred st w) = Inr v"
  shows "\<exists>cs m. cr_classes st = Some cs
           \<and> matrix (fst (snd (ClassificationReport_draw y y_pred st w))) = Some m
           \<and> length m = length cs
           \<and> map (map Inr) m
               = map (\<lambda>c. [score_of (cr_scores st) ''precision'' c,
                            score_of (cr_scores st) ''recall'' c,
                            score_of (cr_scores st) ''f1'' c]) cs"
proof -
  from assms obtain cs where cs: "cr_classes st = Some cs"
    by (cases "cr_classes st")
      (auto simp: ClassificationReport_draw_def Let_def ensure_ax_def split: option.splits)
  from assms cs obtain u m where "append_rows (cr_scores st) cs [] = (Inr u, m)"
    by (cases "append_rows (cr_scores st) cs []")
      (auto simp: ClassificationReport_draw_def Let_def ensure_ax_def
        split: option.splits sum.splits)
  from ClassificationReport_draw_rows [OF cs append_rows_returns [OF this], of y y_pred w] cs
  show ?thesis by simp
qed

text \<open>
  As \<^verbatim>\<open>score\<close> invokes \<^verbatim>\<open>draw\<close>: when the three score arrays have an entry for every
  class, every lookup exists and the matrix has a row for every class.
\<close>

lemma ClassificationReport_score_matrix:
  assumes "predict (estimator st) X = Inr y_pred"
      and "precision_recall_fscore_support y y_pred = Inr (p, r, f, s)"
      and "cr_classes st = Some cs"
      and "length cs \<le> length p" "length cs \<le> length r" "length cs \<le> length f"
  shows "\<exists>m. matrix (fst (snd (ClassificationReport_score predict
                  precision_recall_fscore_support X y st w))) = Some m
           \<and> length m = length cs
           \<and> map (map Inr) m
               = map (\<lambda>c. [getitem (dict (zip cs p)) c, getitem (dict (zip cs r)) c,
                            getitem (dict (zip cs f)) c]) cs"
proof -
  let ?d = "[(''precision'', dict (zip cs p)), (''recall'', dict (zip cs r)),
             (''f1'', dict (zip cs f))]"
  let ?st = "st\<lparr>cr_scores := Some (PerClass ?d)\<rparr>"
  have score: "ClassificationReport_score predict precision_recall_fscore_support X y st w
      = ClassificationReport_draw y y_pred ?st w"
    using assms(1-3) by (simp add: ClassificationReport_score_def dict_def)
  have lookup: "score_of (cr_scores ?st) ''precision'' c = getitem (dict (zip cs p)) c"
    "score_of (cr_scores ?st) ''recall'' c = getitem (dict (zip cs r)) c"
    "score_of (cr_scores ?st) ''f1'' c = getitem (dict (zip cs f)) c" for c
    by (simp_all add: score_of_def getitem_def)
  have defined: "\<forall>c \<in> set cs. \<forall>k \<in> set [''precision'', ''recall'', ''f1''].
      \<exists>v. score_of (cr_scores ?st) k c = Inr v"
    using assms(4-6) lookup by (simp add: getitem_dict_zip_defined)
  have classes: "cr_classes ?st = Some cs"
    using assms(3) by simp
  from ClassificationReport_draw_rows [OF classes defined, of y y_pred w]
  show ?thesis unfolding score lookup .
qed


section \<open>The annotation loop of \<^verbatim>\<open>ClassificationReport.draw\<close>\<close>

text \<open>
  One column of annotations: every read is in range when the column is below the width of
  each row; with a column beyond the width the first read raises.
\<close>

lemma annotate_column_in_bounds:
  "\<forall>row \<in> set rows. row < length m \<and> column < length (m ! row)
     \<Longrightarrow> fst (annotate_column a m column rows w) = Inr ()"
  by (induction rows arbitrary: w) (simp_all add: list_getitem_def)

lemma annotate_column_out_of_bounds:
  "rows \<noteq> [] \<Longrightarrow> \<forall>row \<in> set rows. row < length m \<and> length (m ! row) \<le> column
     \<Longrightarrow> fst (annotate_column a m column rows w) = Inl IndexError"
  by (cases rows) (simp_all add: list_getitem_def)

lemma annotate_in_bounds:
  "\<forall>column \<in> set columns. \<forall>row \<in> set rows. row < length m \<and> column < length (m ! row)
     \<Longrightarrow> fst (annotate a m columns rows w) = Inr ()"
proof (induction columns arbitrary: w)
  case Nil
  then show ?case by simp
next
  case (Cons c columns)
  from Cons.prems have "fst (annotate_column a m c rows w) = Inr ()"
    by (intro annotate_column_in_bounds) simp
  then obtain w' where "annotate_column a m c rows w = (Inr (), w')"
    by (cases "annotate_column a m c rows w") simp
  with Cons show ?case by simp
qed

lemma annotate_append:
  "fst (annotate a m cols1 rows w) = Inr ()
     \<Longrightarrow> annotate a m (cols1 @ cols2) rows w
          = annotate a m cols2 rows (snd (annotate a m cols1 rows w))"
  by (induction cols1 arbitrary: w) (auto split: prod.splits sum.splits)

lemma annotate_Cons_raises:
  "fst (annotate_column a m c rows w) = Inl e \<Longrightarrow> fst (annotate a m (c # cols) rows w) = Inl e"
  by (cases "annotate_column a m c rows w") auto

lemma arange_split: "3 < n \<Longrightarrow> arange n = [0..<3] @ 3 # [4..<n]"
proof -
  assume n: "3 < n"
  then have "[0..<n] = [0..<3] @ [3..<n]"
    by (metis less_imp_le_nat upt_add_eq_append le_add_diff_inverse zero_le)
  moreover from n have "[3..<n] = 3 # [4..<n]"
    by (simp add: upt_conv_Cons)
  ultimately show ?thesis by (simp add: arange_def)
qed

text \<open>
  With rows of width 3 and more than three columns to visit, the columns 0, 1 and 2 are
  annotated and the first read in column 3 raises.
\<close>

lemma annotate_out_of_bounds:
  assumes "rows \<noteq> []" and "\<forall>row \<in> set rows. row < length m \<and> length (m ! row) = 3"
      and "3 < n"
  shows "fst (annotate a m (arange n) rows w) = Inl IndexError"
proof -
  have ok: "fst (annotate a m [0..<3] rows w) = Inr ()"
    using assms(2) by (intro annotate_in_bounds) auto
  have "fst (annotate_column a m 3 rows (snd (annotate a m [0..<3] rows w))) = Inl IndexError"
    using assms(1,2) by (intro annotate_column_out_of_bounds) auto
  then have "fst (annotate a m (3 # [4..<n]) rows (snd (annotate a m [0..<3] rows w)))
      = Inl IndexError"
    by (rule annotate_Cons_raises)
  with ok show ?thesis by (simp add: arange_split [OF assms(3)] annotate_append)
qed

text \<open>
  The outcome of \<^verbatim>\<open>draw\<close> on scores that exist for every class: the loop visits the
  columns \<^verbatim>\<open>range(len(self.matrix)+1)\<close>, one more than there are classes, of rows that
  are three wide. With at most two classes \<^verbatim>\<open>draw\<close> returns the axes; with three or more
  it raises \<^verbatim>\<open>IndexError\<close>.
\<close>

lemma ClassificationReport_draw_outcome:
  assumes "cr_classes st = Some cs"
      and "\<forall>c \<in> set cs. \<forall>k \<in> set [''precision'', ''recall'', ''f1''].
             \<exists>v. score_of (cr_scores st) k c = Inr v"
  shows "fst (ClassificationReport_draw y y_pred st w)
           = (if 3 \<le> length cs then Inl IndexError else Inr (return_ax (ensure_ax st w)))"
proof -
  from append_rows_defined [OF assms(2), of "[]"] obtain m where m:
    "append_rows (cr_scores st) cs [] = (Inr (), m)" "length m = length cs"
    "\<forall>row \<in> set m. length row = 3"
    by auto
  obtain a where a: "ax (ensure_ax st w) = Some a"
    using ensure_ax_fields(1) [of st w] by auto
  have classes: "cr_classes (ensure_ax st w) = Some cs"
    "cr_scores (ensure_ax st w) = cr_scores st"
    using assms(1) by (simp_all add: ensure_ax_def split: option.splits)
  have draw: "fst (ClassificationReport_draw y y_pred st w)
      = (case fst (annotate a m (arange (length m + 1)) (arange (length cs)) w) of
           Inl e \<Rightarrow> Inl e | Inr u \<Rightarrow> Inr (RetAx a))"
    using m(1) a classes
    by (simp add: ClassificationReport_draw_def Let_def return_ax_def
        split: prod.splits sum.splits)
  show ?thesis
  proof (cases "3 \<le> length cs")
    case True
    have "fst (annotate a m (arange (length m + 1)) (arange (length cs)) w) = Inl IndexError"
      using True m(2,3) by (intro annotate_out_of_bounds) (auto simp: arange_def)
    with True draw show ?thesis by simp
  next
    case False
    have "fst (annotate a m (arange (length m + 1)) (arange (length cs)) w) = Inr ()"
      using False m(2,3) by (intro annotate_in_bounds) (auto simp: arange_def)
    with False draw a show ?thesis by (simp add: return_ax_def)
  qed
qed

text \<open>
  Claim C4 says that for every non-empty \<^verbatim>\<open>classes_\<close> the annotation loop of
  \<^verbatim>\<open>ClassificationReport.draw\<close> reads \<^verbatim>\<open>matrix[row][column]\<close> in range only. The module
  does not do so for three classes: \<^verbatim>\<open>score\<close> with the classes \<^verbatim>\<open>ham\<close>, \<^verbatim>\<open>spam\<close> and
  \<^verbatim>\<open>eggs\<close> builds the three rows of the matrix, annotates the nine cells of the columns 0,
  1 and 2, and raises \<^verbatim>\<open>IndexError\<close> on \<^verbatim>\<open>matrix[0][3]\<close>.
\<close>

theorem ClassificationReport_draw_column_out_of_range:
  "ClassificationReport_score ex_predict ex_prfs3 () [0, 1, 2]
       (ex_report (Some [''ham'', ''spam'', ''eggs''])) ex_plot
     = (Inl IndexError,
        \<lparr>ax = Some 7, estimator = 1, name = ''SVC'', cmap = ''ddlheatmap'',
         cr_classes = Some [''ham'', ''spam'', ''eggs''],
         cr_scores = Some (PerClass
           [(''precision'', [(''ham'', 50), (''spam'', 100), (''eggs'', 80)]),
            (''recall'', [(''ham'', 100), (''spam'', 75), (''eggs'', 80)]),
            (''f1'', [(''ham'', 67), (''spam'', 86), (''eggs'', 80)])]),
         matrix = Some [[50, 100, 67], [100, 75, 86], [80, 80, 80]]\<rparr>,
        \<lparr>gca = 7,
         calls = [AxText 7 0 0 50, AxText 7 0 1 100, AxText 7 0 2 80,
                  AxText 7 1 0 100, AxText 7 1 1 75, AxText 7 1 2 80,
                  AxText 7 2 0 67, AxText 7 2 1 86, AxText 7 2 2 80]\<rparr>)
   \<and> list_getitem [50, 100, 67 :: nat] 3 = Inl IndexError"
  by (simp add: ex_defs model_defs upt_rec)


section \<open>What \<^verbatim>\<open>score\<close> returns, and the order of \<^verbatim>\<open>poof\<close>\<close>

text \<open>
  Claim C8. For each of the three visualizers \<^verbatim>\<open>score\<close>, once the library calls have
  returned and the attributes are stored, is its \<^verbatim>\<open>draw\<close> call: it returns what \<^verbatim>\<open>draw\<close>
  returns and raises what \<^verbatim>\<open>draw\<close> raises. What \<^verbatim>\<open>draw\<close> returns is the axes held in
  \<^verbatim>\<open>self.ax\<close>. \<^verbatim>\<open>ClassificationReport.poof\<close> on an instance with axes runs \<^verbatim>\<open>finalize\<close>
  first and \<^verbatim>\<open>plt.show()\<close> after it: the calls it has made are those of \<^verbatim>\<open>finalize\<close>
  followed by the display.
\<close>

theorem score_returns_draw:
  "(predict1 (estimator st1) X = Inr y_pred \<and> prfs y y_pred = Inr t \<and> cr_classes st1 = Some cs
      \<longrightarrow> ClassificationReport_score predict1 prfs X y st1 w1
            = ClassificationReport_draw y y_pred
                (st1\<lparr>cr_scores := Some (PerClass (dict (zip [''precision'', ''recall'', ''f1'']
                   (map (\<lambda>s. dict (zip cs s)) (take 3 (components t))))))\<rparr>) w1)
   \<and> (predict2 (estimator st2) X = Inr y_pred \<and> roc_curve y y_pred = Inr (f, tp, th)
        \<and> auc f tp = Inr a
      \<longrightarrow> ROCAUC_score predict2 roc_curve auc X y st2 w2
            = ROCAUC_draw y y_pred
                (st2\<lparr>fpr := Some f, tpr := Some tp, thresholds := Some th, roc_auc := Some a\<rparr>)
                w2)
   \<and> (predict3 (estimator st3) X = Inr y_pred \<and> prfs y y_pred = Inr t
        \<and> cb_classes st3 = Some cs'
      \<longrightarrow> ClassBalance_score predict3 prfs X y st3 w3
            = ClassBalance_draw
                (st3\<lparr>cb_scores := Some t,
                     support := Some (dict (zip cs' (last (components t))))\<rparr>) w3)
   \<and> (fst (ClassificationReport_draw y y_pred st1 w1) = Inr v1
      \<longrightarrow> (\<exists>a. v1 = RetAx a
             \<and> ax (fst (snd (ClassificationReport_draw y y_pred st1 w1))) = Some a))
   \<and> (fst (ROCAUC_draw y y_pred st2 w2) = Inr v2
      \<longrightarrow> (\<exists>a. v2 = RetAx a \<and> ax (fst (snd (ROCAUC_draw y y_pred st2 w2))) = Some a))
   \<and> (fst (ClassBalance_draw st3 w3) = Inr v3
      \<longrightarrow> (\<exists>a. v3 = RetAx a \<and> ax (fst (snd (ClassBalance_draw st3 w3))) = Some a))
   \<and> (ax st1 \<noteq> None \<and> fst (ClassificationReport_finalize st1 w1) = Inr v4
      \<longrightarrow> calls (snd (snd (ClassificationReport_poof st1 w1)))
            = calls (snd (snd (ClassificationReport_finalize st1 w1))) @ [Show])"
proof (intro conjI impI)
  assume "predict1 (estimator st1) X = Inr y_pred \<and> prfs y y_pred = Inr t
    \<and> cr_classes st1 = Some cs"
  then show "ClassificationReport_score predict1 prfs X y st1 w1
      = ClassificationReport_draw y y_pred
          (st1\<lparr>cr_scores := Some (PerClass (dict (zip [''precision'', ''recall'', ''f1'']
             (map (\<lambda>s. dict (zip cs s)) (take 3 (components t))))))\<rparr>) w1"
    by (simp add: ClassificationReport_score_def Let_def)
next
  assume "predict2 (estimator st2) X = Inr y_pred \<and> roc_curve y y_pred = Inr (f, tp, th)
    \<and> auc f tp = Inr a"
  then show "ROCAUC_score predict2 roc_curve auc X y st2 w2
      = ROCAUC_draw y y_pred
          (st2\<lparr>fpr := Some f, tpr := Some tp, thresholds := Some th, roc_auc := Some a\<rparr>) w2"
    by (simp add: ROCAUC_score_def Let_def)
next
  assume "predict3 (estimator st3) X = Inr y_pred \<and> prfs y y_pred = Inr t
    \<and> cb_classes st3 = Some cs'"
  then show "ClassBalance_score predict3 prfs X y st3 w3
      = ClassBalance_draw
          (st3\<lparr>cb_scores := Some t, support := Some (dict (zip cs' (last (components t))))\<rparr>)
          w3"
    by (simp add: ClassBalance_score_def Let_def)
next
  assume "fst (ClassificationReport_draw y y_pred st1 w1) = Inr v1"
  then show "\<exists>a. v1 = RetAx a
      \<and> ax (fst (snd (ClassificationReport_draw y y_pred st1 w1))) = Some a"
    by (auto simp: ClassificationReport_draw_def Let_def return_ax_def
        split: option.splits sum.splits prod.splits)
next
  assume "fst (ROCAUC_draw y y_pred st2 w2) = Inr v2"
  then show "\<exists>a. v2 = RetAx a \<and> ax (fst (snd (ROCAUC_draw y y_pred st2 w2))) = Some a"
    using ensure_ax_fields(1) [of st2 w2]
    by (auto simp: ROCAUC_draw_def Let_def return_ax_def
        split: option.splits sum.splits prod.splits)
next
  assume "fst (ClassBalance_draw st3 w3) = Inr v3"
  then show "\<exists>a. v3 = RetAx a \<and> ax (fst (snd (ClassBalance_draw st3 w3))) = Some a"
    using ensure_ax_fields(1) [of st3 w3]
    by (auto simp: ClassBalance_draw_def Let_def return_ax_def
        split: option.splits sum.splits prod.splits)
next
  assume "ax st1 \<noteq> None \<and> fst (ClassificationReport_finalize st1 w1) = Inr v4"
  then show "calls (snd (snd (ClassificationReport_poof st1 w1)))
      = calls (snd (snd (ClassificationReport_finalize st1 w1))) @ [Show]"
    by (cases "ClassificationReport_finalize st1 w1")
      (auto simp: ClassificationReport_poof_def plt_def)
qed

text \<open>
  On the instances that \<^verbatim>\<open>score\<close> has filled, with two classes: each \<^verbatim>\<open>score\<close> and each
  \<^verbatim>\<open>draw\<close> returns the axes \<open>7\<close>, and \<^verbatim>\<open>poof\<close> of the report, with the image drawn, ends
  with the display.
\<close>

theorem score_returns_draw_witness:
  "ex_predict (estimator ex_report_scored) () = Inr [0, 1, 1]
   \<and> ex_prfs2 [0, 1, 1] [0, 1, 1] = Inr ([50, 100], [100, 75], [67, 86], [1, 2])
   \<and> ex_roc_curve [0, 1, 1] [0, 1, 1] = Inr ([0, 0, 100], [0, 100, 100], [2, 1, 0])
   \<and> ex_auc [0, 0, 100] [0, 100, 100] = Inr 100
   \<and> fst (ClassificationReport_score ex_predict ex_prfs2 () [0, 1, 1] ex_report_scored
        ex_plot_drawn)
     = Inr (RetAx 7)
   \<and> fst (ClassificationReport_draw [0, 1, 1 :: nat] [0, 1, 1] ex_report_scored ex_plot_drawn)
     = Inr (RetAx 7)
   \<and> fst (ROCAUC_score ex_predict ex_roc_curve ex_auc () [0, 1, 1] ex_rocauc_scored ex_plot)
     = Inr (RetAx 7)
   \<and> fst (ROCAUC_draw [0, 1, 1 :: nat] [0, 1, 1] ex_rocauc_scored ex_plot) = Inr (RetAx 7)
   \<and> fst (ClassBalance_score ex_predict ex_prfs2 () [0, 1, 1] ex_balance_scored ex_plot)
     = Inr (RetAx 7)
   \<and> fst (ClassBalance_draw ex_balance_scored ex_plot) = Inr (RetAx 7)
   \<and> fst (ClassificationReport_finalize ex_report_scored ex_plot_drawn) = Inr (RetAx 7)
   \<and> calls (snd (snd (ClassificationReport_poof ex_report_scored ex_plot_drawn)))
     = calls (snd (snd (ClassificationReport_finalize ex_report_scored ex_plot_drawn))) @ [Show]"
  using score_returns_draw [where ?predict1.0 = ex_predict and ?predict2.0 = ex_predict
      and ?predict3.0 = ex_predict and prfs = ex_prfs2 and roc_curve = ex_roc_curve
      and auc = ex_auc and X = "()" and y = "[0, 1, 1]" and y_pred = "[0, 1, 1]"
      and t = "([50, 100], [100, 75], [67, 86], [1, 2])" and cs = "[''ham'', ''spam'']"
      and cs' = "[''ham'', ''spam'']" and f = "[0, 0, 100]" and tp = "[0, 100, 100]"
      and th = "[2, 1, 0]" and a = 100 and ?st1.0 = ex_report_scored and ?w1.0 = ex_plot_drawn
      and ?st2.0 = ex_rocauc_scored and ?w2.0 = ex_plot and ?st3.0 = ex_balance_scored
      and ?w3.0 = ex_plot and ?v1.0 = "RetAx 7" and ?v2.0 = "RetAx 7" and ?v3.0 = "RetAx 7"
      and ?v4.0 = "RetAx 7"]
  by (simp add: ex_defs model_defs upt_rec)


section \<open>What \<^verbatim>\<open>poof\<close> returns\<close>

text \<open>
  Claim C9, where the module differs from it. A \<^verbatim>\<open>ClassBalance\<close> constructed with the
  empty list of classes has axes after \<^verbatim>\<open>score\<close> and an empty \<^verbatim>\<open>support\<close>; its \<^verbatim>\<open>poof\<close>
  does not return the axes: \<^verbatim>\<open>max\<close> of the empty \<^verbatim>\<open>support.values()\<close> raises
  \<^verbatim>\<open>ValueError\<close>.
\<close>

theorem ClassBalance_poof_empty_support:
  "ClassBalance_score ex_predict ex_prfs2 () [0, 1, 1] (ex_balance (Some [])) ex_plot
     = (Inr (RetAx 7),
        \<lparr>ax = Some 7, estimator = 1, name = ''SVC'',
         cb_colors = [''#a6cee3'', ''#1f78b4'', ''#b2df8a''], cb_classes = Some [],
         cb_scores = Some ([50, 100], [100, 75], [67, 86], [1, 2]), support = Some []\<rparr>,
        \<lparr>gca = 7, calls = [Bar [] [] []]\<rparr>)
   \<and> fst (ClassBalance_poof
        \<lparr>ax = Some 7, estimator = 1 :: nat, name = ''SVC'',
         cb_colors = [''#a6cee3'', ''#1f78b4'', ''#b2df8a''], cb_classes = Some ([] :: string list),
         cb_scores = Some ([50, 100], [100, 75], [67, 86], [1, 2 :: nat]), support = Some []\<rparr>
        \<lparr>gca = 7 :: nat, calls = [Bar [] [] []]\<rparr>)
     = Inl ValueError"
  by (simp add: ex_defs model_defs)

text \<open>
  What a returning \<^verbatim>\<open>draw\<close> of the report leaves: the axes it returns in \<^verbatim>\<open>self.ax\<close>, the
  classes as they were, and an image for the colorbar. A returning \<^verbatim>\<open>score\<close> is a returning
  \<^verbatim>\<open>draw\<close>.
\<close>

lemma has_image_plt: "has_image (plt c w) = (is_imshow c \<or> has_image w)"
  by (auto simp: has_image_def plt_def)

lemma annotate_column_has_image:
  "has_image w \<Longrightarrow> has_image (snd (annotate_column a m column rows w))"
  by (induction rows arbitrary: w) (auto simp: has_image_plt split: sum.splits)

lemma ClassificationReport_draw_returns:
  assumes "ClassificationReport_draw y y_pred st w = (Inr v, st', w')"
  shows "ax st' = Some (case v of RetAx a \<Rightarrow> a) \<and> v = return_ax st'
           \<and> cr_classes st' = cr_classes st \<and> has_image w'"
  using assms ensure_ax_fields(1) [of st w]
  by (auto simp: ClassificationReport_draw_def Let_def return_ax_def has_image_plt ensure_ax_def
      split: option.splits sum.splits prod.splits)

lemma ClassificationReport_score_returns:
  assumes "ClassificationReport_score predict precision_recall_fscore_support X y st w
             = (Inr v, st', w')"
  shows "\<exists>y_pred st2. ClassificationReport_draw y y_pred st2 w = (Inr v, st', w')
           \<and> cr_classes st2 = cr_classes st"
proof -
  from assms obtain y_pred where y_pred: "predict (estimator st) X = Inr y_pred"
    by (cases "predict (estimator st) X") (simp_all add: ClassificationReport_score_def)
  from assms y_pred obtain t where t: "precision_recall_fscore_support y y_pred = Inr t"
    by (cases "precision_recall_fscore_support y y_pred")
      (simp_all add: ClassificationReport_score_def)
  from assms y_pred t obtain cs where cs: "cr_classes st = Some cs"
    by (cases "cr_classes st") (simp_all add: ClassificationReport_score_def Let_def)
  let ?st2 = "st\<lparr>cr_scores := Some (PerClass (dict (zip [''precision'', ''recall'', ''f1'']
      (map (\<lambda>s. dict (zip cs s)) (take 3 (components t))))))\<rparr>"
  from assms y_pred t cs have "ClassificationReport_draw y y_pred ?st2 w = (Inr v, st', w')"
    by (simp add: ClassificationReport_score_def Let_def)
  moreover have "cr_classes ?st2 = cr_classes st" by simp
  ultimately show ?thesis by blast
qed

text \<open>
  Claim C9, as the module has it. For each of the three visualizers, \<^verbatim>\<open>poof\<close> on an
  instance whose \<^verbatim>\<open>ax\<close> is \<^verbatim>\<open>None\<close> returns \<^verbatim>\<open>None\<close> and does nothing: no finalization, no
  axis formatting, no display, the plotting state is as before. On an instance with axes,
  \<^verbatim>\<open>ROCAUC.poof\<close> returns them; \<^verbatim>\<open>ClassificationReport.poof\<close> returns them when
  \<^verbatim>\<open>classes_\<close> has exactly two entries and an image has been drawn with \<^verbatim>\<open>plt.imshow\<close>, as
  by a \<^verbatim>\<open>draw\<close> that returned; \<^verbatim>\<open>ClassBalance.poof\<close> returns them when \<^verbatim>\<open>support\<close> has been
  set and is not empty.
\<close>

theorem poof_returns:
  "(ax st1 = None \<longrightarrow> ClassificationReport_poof st1 w1 = (Inr RetNone, st1, w1))
   \<and> (ax st2 = None \<longrightarrow> ROCAUC_poof st2 w2 = (Inr RetNone, st2, w2))
   \<and> (ax st3 = None \<longrightarrow> ClassBalance_poof st3 w3 = (Inr RetNone, st3, w3))
   \<and> (ax st1 = Some a1 \<and> cr_classes st1 = Some cs \<and> length cs = 2 \<and> has_image w1
        \<longrightarrow> fst (ClassificationReport_poof st1 w1) = Inr (RetAx a1))
   \<and> (ax st2 = Some a2 \<longrightarrow> fst (ROCAUC_poof st2 w2) = Inr (RetAx a2))
   \<and> (ax st3 = Some a3 \<and> support st3 = Some sp \<and> sp \<noteq> []
        \<longrightarrow> fst (ClassBalance_poof st3 w3) = Inr (RetAx a3))"
proof (intro conjI impI)
  assume "ax st1 = Some a1 \<and> cr_classes st1 = Some cs \<and> length cs = 2 \<and> has_image w1"
  then show "fst (ClassificationReport_poof st1 w1) = Inr (RetAx a1)"
    by (simp add: ClassificationReport_poof_def ClassificationReport_finalize_def Let_def
        return_ax_def colorbar_def ticks_def has_image_plt arange_def)
next
  assume "ax st3 = Some a3 \<and> support st3 = Some sp \<and> sp \<noteq> []"
  then show "fst (ClassBalance_poof st3 w3) = Inr (RetAx a3)"
    by (cases sp)
      (simp_all add: ClassBalance_poof_def Let_def return_ax_def py_max_def py_min_def
        dict_values_def dict_keys_def ticks_def arange_def)
qed (simp_all add: ClassificationReport_poof_def ROCAUC_poof_def ClassBalance_poof_def Let_def
    return_ax_def)

text \<open>
  Each condition is needed. Without an image \<^verbatim>\<open>plt.colorbar()\<close> raises: on an instance
  that was given axes at construction and has drawn nothing, and on the instance that
  \<^verbatim>\<open>score\<close> leaves with three classes, where the annotation loop raises before
  \<^verbatim>\<open>plt.imshow\<close>. With one class the image is there and the three labels of the x axis
  meet two marks. With an image and no classes \<^verbatim>\<open>finalize\<close> measures \<^verbatim>\<open>None\<close>. And
  \<^verbatim>\<open>ClassBalance.poof\<close> reads \<^verbatim>\<open>support\<close>, which an instance that was given axes at
  construction does not have before \<^verbatim>\<open>score\<close>.
\<close>

lemma ClassificationReport_poof_without_image:
  "fst (ClassificationReport_poof ((ex_report (Some [''ham'', ''spam'']))\<lparr>ax := Some 7\<rparr>) ex_plot)
     = Inl RuntimeError"
  by (simp add: ex_defs model_defs)

lemma ClassificationReport_poof_three_classes:
  "fst (ClassificationReport_poof
     (fst (snd (ClassificationReport_score ex_predict ex_prfs3 () [0, 1, 2]
        (ex_report (Some [''ham'', ''spam'', ''eggs''])) ex_plot)))
     (snd (snd (ClassificationReport_score ex_predict ex_prfs3 () [0, 1, 2]
        (ex_report (Some [''ham'', ''spam'', ''eggs''])) ex_plot))))
     = Inl RuntimeError"
  by (simp add: ex_defs model_defs upt_rec)

lemma ClassificationReport_poof_one_class:
  "fst (ClassificationReport_score ex_predict ex_prfs2 () [0, 1, 1]
        (ex_report (Some [''ham''])) ex_plot) = Inr (RetAx 7)
   \<and> fst (ClassificationReport_poof
     (fst (snd (ClassificationReport_score ex_predict ex_prfs2 () [0, 1, 1]
        (ex_report (Some [''ham''])) ex_plot)))
     (snd (snd (ClassificationReport_score ex_predict ex_prfs2 () [0, 1, 1]
        (ex_report (Some [''ham''])) ex_plot))))
     = Inl ValueError"
  by (simp add: ex_defs model_defs upt_rec)

lemma ClassificationReport_poof_without_classes:
  "fst (ClassificationReport_poof ((ex_report None)\<lparr>ax := Some 7\<rparr>) ex_plot_drawn)
     = Inl TypeError"
  by (simp add: ex_defs model_defs)

lemma ClassBalance_poof_without_support:
  "fst (ClassBalance_poof ((ex_balance (Some [''ham'', ''spam'']))\<lparr>ax := Some 7\<rparr>) ex_plot)
     = Inl AttributeError"
  by (simp add: ex_defs model_defs)

text \<open>
  The conditions of the report hold after every \<^verbatim>\<open>score\<close> that returns on two classes:
  \<^verbatim>\<open>poof\<close> then returns what \<^verbatim>\<open>score\<close> returned.
\<close>

lemma ClassificationReport_poof_after_score:
  assumes "ClassificationReport_score predict precision_recall_fscore_support X y st w
             = (Inr v, st', w')"
      and "cr_classes st = Some cs" and "length cs = 2"
  shows "fst (ClassificationReport_poof st' w') = Inr v"
proof -
  from ClassificationReport_score_returns [OF assms(1)] obtain y_pred st2 where
    draw: "ClassificationReport_draw y y_pred st2 w = (Inr v, st', w')"
    and st2: "cr_classes st2 = cr_classes st"
    by blast
  from ClassificationReport_draw_returns [OF draw] st2 assms(2)
  have facts: "ax st' \<noteq> None" "v = return_ax st'" "cr_classes st' = Some cs" "has_image w'"
    by simp_all
  with assms(3) show ?thesis
    by (auto simp: ClassificationReport_poof_def ClassificationReport_finalize_def Let_def
        return_ax_def colorbar_def ticks_def has_image_plt arange_def)
qed

text \<open>
  Both cases on the examples: the instances as constructed have no axes, the instances
  that \<^verbatim>\<open>score\<close> has filled hold the axes \<open>7\<close>, and the report has two classes and its
  image.
\<close>

theorem poof_returns_witness:
  "ax (ex_report (Some [''ham'', ''spam''])) = None
   \<and> ClassificationReport_poof (ex_report (Some [''ham'', ''spam''])) ex_plot
     = (Inr RetNone, ex_report (Some [''ham'', ''spam'']), ex_plot)
   \<and> ax ex_rocauc = None
   \<and> ROCAUC_poof ex_rocauc ex_plot = (Inr RetNone, ex_rocauc, ex_plot)
   \<and> ax (ex_balance (Some [''ham'', ''spam''])) = None
   \<and> ClassBalance_poof (ex_balance (Some [''ham'', ''spam''])) ex_plot
     = (Inr RetNone, ex_balance (Some [''ham'', ''spam'']), ex_plot)
   \<and> ClassificationReport_score ex_predict ex_prfs2 () [0, 1, 1]
       (ex_report (Some [''ham'', ''spam''])) ex_plot
     = (Inr (RetAx 7), ex_report_scored, ex_plot_drawn)
   \<and> ax ex_report_scored = Some 7 \<and> cr_classes ex_report_scored = Some [''ham'', ''spam'']
   \<and> length [''ham'', ''spam''] = 2 \<and> has_image ex_plot_drawn
   \<and> fst (ClassificationReport_poof ex_report_scored ex_plot_drawn) = Inr (RetAx 7)
   \<and> ax ex_rocauc_scored = Some 7
   \<and> fst (ROCAUC_poof ex_rocauc_scored ex_plot) = Inr (RetAx 7)
   \<and> ax ex_balance_scored = Some 7
   \<and> support ex_balance_scored = Some [(''ham'', 1), (''spam'', 2)]
   \<and> fst (ClassBalance_poof ex_balance_scored ex_plot) = Inr (RetAx 7)"
  using poof_returns [of "ex_report (Some [''ham'', ''spam''])" ex_plot ex_rocauc ex_plot
      "ex_balance (Some [''ham'', ''spam''])" ex_plot]
    poof_returns [of ex_report_scored ex_plot_drawn ex_rocauc_scored ex_plot ex_balance_scored
      ex_plot 7 "[''ham'', ''spam'']" 7 7 "[(''ham'', 1), (''spam'', 2)]"]
  by (simp add: ex_defs model_defs upt_rec)


section \<open>\<^verbatim>\<open>fit\<close> and the classes\<close>

text \<open>
  Claim C10. \<^verbatim>\<open>ClassificationReport.fit\<close> and \<^verbatim>\<open>ClassBalance.fit\<close> return the instance
  itself whenever they return, and they do return when the estimator could be fitted and
  either a list of classes was supplied at construction or the fitted estimator has
  \<^verbatim>\<open>classes_\<close>. A list of classes that was supplied stays as it is; \<^verbatim>\<open>classes_\<close> is
  assigned, from \<^verbatim>\<open>estimator.classes_\<close>, only when it was \<^verbatim>\<open>None\<close>.
\<close>

theorem fit_classes:
  "(cr_classes st1 = Some cs \<longrightarrow>
      cr_classes (snd (ClassificationReport_fit est_fit est_classes X y st1)) = Some cs)
   \<and> (est_fit X y (estimator st1) = Inr est' \<and> cr_classes st1 = Some cs \<longrightarrow>
      ClassificationReport_fit est_fit est_classes X y st1
        = (Inr RetSelf, st1\<lparr>estimator := est'\<rparr>))
   \<and> (est_fit X y (estimator st1) = Inr est' \<and> cr_classes st1 = None
        \<and> est_classes est' = Some cs \<longrightarrow>
      ClassificationReport_fit est_fit est_classes X y st1
        = (Inr RetSelf, st1\<lparr>estimator := est', cr_classes := Some cs\<rparr>))
   \<and> (fst (ClassificationReport_fit est_fit est_classes X y st1) = Inr v1 \<longrightarrow> v1 = RetSelf)
   \<and> (cb_classes st3 = Some cs \<longrightarrow>
      cb_classes (snd (ClassBalance_fit est_fit est_classes X y st3)) = Some cs)
   \<and> (est_fit X y (estimator st3) = Inr est'' \<and> cb_classes st3 = Some cs \<longrightarrow>
      ClassBalance_fit est_fit est_classes X y st3
        = (Inr RetSelf, st3\<lparr>estimator := est''\<rparr>))
   \<and> (est_fit X y (estimator st3) = Inr est'' \<and> cb_classes st3 = None
        \<and> est_classes est'' = Some cs \<longrightarrow>
      ClassBalance_fit est_fit est_classes X y st3
        = (Inr RetSelf, st3\<lparr>estimator := est'', cb_classes := Some cs\<rparr>))
   \<and> (fst (ClassBalance_fit est_fit est_classes X y st3) = Inr v3 \<longrightarrow> v3 = RetSelf)"
  by (auto simp: ClassificationReport_fit_def ClassBalance_fit_def ScoreVisualizer_fit_def
      split: sum.splits option.splits)

text \<open>
  With the classes \<^verbatim>\<open>['spam', 'eggs']\<close> supplied, \<^verbatim>\<open>fit\<close> keeps them although the fitted
  estimator has \<^verbatim>\<open>['ham', 'spam']\<close>; with no classes supplied, \<^verbatim>\<open>fit\<close> takes the
  estimator's.
\<close>

theorem fit_classes_witness:
  "ex_est_fit () [0, 1, 1] 1 = Inr 2 \<and> ex_est_classes 2 = Some [''ham'', ''spam'']
   \<and> ClassificationReport_fit ex_est_fit ex_est_classes () [0, 1, 1]
       (ex_report (Some [''spam'', ''eggs'']))
     = (Inr RetSelf, (ex_report (Some [''spam'', ''eggs'']))\<lparr>estimator := 2\<rparr>)
   \<and> ClassificationReport_fit ex_est_fit ex_est_classes () [0, 1, 1] (ex_report None)
     = (Inr RetSelf, (ex_report (Some [''ham'', ''spam'']))\<lparr>estimator := 2\<rparr>)
   \<and> ClassBalance_fit ex_est_fit ex_est_classes () [0, 1, 1]
       (ex_balance (Some [''spam'', ''eggs'']))
     = (Inr RetSelf, (ex_balance (Some [''spam'', ''eggs'']))\<lparr>estimator := 2\<rparr>)
   \<and> ClassBalance_fit ex_est_fit ex_est_classes () [0, 1, 1] (ex_balance None)
     = (Inr RetSelf, (ex_balance (Some [''ham'', ''spam'']))\<lparr>estimator := 2\<rparr>)"
  using fit_classes [of "ex_report (Some [''spam'', ''eggs''])" "[''spam'', ''eggs'']" ex_est_fit
      ex_est_classes "()" "[0, 1, 1]" 2 RetSelf "ex_balance (Some [''spam'', ''eggs''])" 2 RetSelf]
    fit_classes [of "ex_report None" "[''ham'', ''spam'']" ex_est_fit
      ex_est_classes "()" "[0, 1, 1]" 2 RetSelf "ex_balance None" 2 RetSelf]
  by (simp add: ex_defs model_defs)

end
